theory Spec2Isabelle
  imports Complex_Main
begin

section \<open>JavaScript values\<close>

text \<open>
  The values that flow through the two programs (request bodies, option bags, upstream
  payloads) are JavaScript values. Only the distinctions the code makes are kept:
  which values are falsy, and which property an object has.
\<close>

datatype js_value =
    JUndefined
  | JNull
  | JBool bool
  | JNum real
  | JNaN
  | JStr string
  | JObj "(string \<times> js_value) list"

text \<open>JavaScript truthiness, as tested by \<^verbatim>\<open>!x\<close> and \<^verbatim>\<open>x || y\<close>.\<close>

fun truthy :: "js_value \<Rightarrow> bool" where
  "truthy JUndefined = False"
| "truthy JNull = False"
| "truthy (JBool b) = b"
| "truthy (JNum x) = (x \<noteq> 0)"
| "truthy JNaN = False"
| "truthy (JStr s) = (s \<noteq> [])"
| "truthy (JObj fs) = True"

text \<open>\<^verbatim>\<open>a || b\<close>: the left operand when it is truthy, the right one otherwise.\<close>

definition js_or :: "js_value \<Rightarrow> js_value \<Rightarrow> js_value" where
  "js_or a b = (if truthy a then a else b)"

text \<open>
  Reading a property of a parsed JSON value by destructuring or by \<^verbatim>\<open>v?.name\<close>:
  a missing property and a property of a primitive are \<^verbatim>\<open>undefined\<close>.
\<close>

fun js_get :: "js_value \<Rightarrow> string \<Rightarrow> js_value" where
  "js_get (JObj fs) name = (case map_of fs name of Some v \<Rightarrow> v | None \<Rightarrow> JUndefined)"
| "js_get v name = JUndefined"

section \<open>The gateway (ollama-proxy.js)\<close>

subsection \<open>Rate limiting middleware\<close>

record rate_limit =
  windowMs :: int
  maxRequests :: nat

definition RATE_LIMIT :: rate_limit where
  "RATE_LIMIT = \<lparr>windowMs = 60 * 1000, maxRequests = 20\<rparr>"

text \<open>\<^verbatim>\<open>requestTracking\<close>: a Map from the client address to its request timestamps.\<close>

type_synonym tracking = "string \<rightharpoonup> int list"

record gateway_response =
  status :: nat
  body :: js_value

definition too_many_requests :: gateway_response where
  "too_many_requests =
     \<lparr>status = 429,
      body = JObj [(''error'', JStr ''Too many requests''),
                   (''message'', JStr ''Please try again later'')]\<rparr>"

text \<open>
  The middleware either answers itself (\<open>Some\<close> response, the chain stops) or calls
  \<^verbatim>\<open>next()\<close> (\<open>None\<close>). The filtered array is a fresh one: it reaches the Map only
  through the \<^verbatim>\<open>set\<close> on the admitting path.
\<close>

definition rateLimiter ::
  "rate_limit \<Rightarrow> tracking \<Rightarrow> string \<Rightarrow> int \<Rightarrow> gateway_response option \<times> tracking" where
  "rateLimiter rl requestTracking clientIp now =
     (let tracked = (if requestTracking clientIp = None
                     then requestTracking(clientIp \<mapsto> [])
                     else requestTracking);
          requests = (case tracked clientIp of Some ts \<Rightarrow> ts | None \<Rightarrow> []);
          windowStart = now - windowMs rl;
          requests' = filter (\<lambda>timestamp. timestamp > windowStart) requests
      in if length requests' \<ge> maxRequests rl
         then (Some too_many_requests, tracked)
         else (None, tracked(clientIp \<mapsto> requests' @ [now])))"

text \<open>
  A run of the gateway process: the requests arrive one after the other (the event loop
  runs one middleware call at a time) and the Map starts empty.
\<close>

fun admissions :: "rate_limit \<Rightarrow> tracking \<Rightarrow> (string \<times> int) list \<Rightarrow> bool list" where
  "admissions rl tr [] = []"
| "admissions rl tr ((ip, now) # rest) =
     (fst (rateLimiter rl tr ip now) = None) # admissions rl (snd (rateLimiter rl tr ip now)) rest"

fun tracking_after :: "rate_limit \<Rightarrow> tracking \<Rightarrow> (string \<times> int) list \<Rightarrow> tracking" where
  "tracking_after rl tr [] = tr"
| "tracking_after rl tr ((ip, now) # rest) =
     tracking_after rl (snd (rateLimiter rl tr ip now)) rest"

text \<open>The timestamps stored for a client, an absent client having none.\<close>

definition stored :: "tracking \<Rightarrow> string \<Rightarrow> int list" where
  "stored tr ip = (case tr ip of Some ts \<Rightarrow> ts | None \<Rightarrow> [])"

definition in_window :: "rate_limit \<Rightarrow> int \<Rightarrow> int list \<Rightarrow> int list" where
  "in_window rl now ts = filter (\<lambda>t. t > now - windowMs rl) ts"

text \<open>
  No client ever has more than \<open>maxRequests\<close> timestamps stored: a list is written only on
  admission, where fewer than \<open>maxRequests\<close> survived the filter.
\<close>

definition within_quota :: "rate_limit \<Rightarrow> tracking \<Rightarrow> bool" where
  "within_quota rl tr = (\<forall>ip. length (stored tr ip) \<le> maxRequests rl)"

subsection \<open>Configuration read from the process environment\<close>

record gateway_env =
  OLLAMA_API_LOCAL :: "string option"
  OLLAMA_API_PRODUCTION :: "string option"
  NODE_ENV :: "string option"
  OLLAMA_API_KEY :: "string option"

text \<open>\<^verbatim>\<open>process.env.X || fallback\<close>: an unset and an empty variable both give the fallback.\<close>

definition env_or :: "string option \<Rightarrow> string \<Rightarrow> string" where
  "env_or v fallback = (case v of None \<Rightarrow> fallback | Some x \<Rightarrow> if x = [] then fallback else x)"

definition API_ENDPOINTS :: "gateway_env \<Rightarrow> (string \<times> string) list" where
  "API_ENDPOINTS env =
     [(''local'', env_or (OLLAMA_API_LOCAL env) ''http://192.168.1.50:11434/api/generate''),
      (''production'', env_or (OLLAMA_API_PRODUCTION env) ''https://ollama.mhrpci.site/api/generate'')]"

definition DEFAULT_ENDPOINT :: "gateway_env \<Rightarrow> string" where
  "DEFAULT_ENDPOINT env = (if NODE_ENV env = Some ''production'' then ''production'' else ''local'')"

text \<open>
  \<^verbatim>\<open>API_ENDPOINTS[endpointKey]\<close> is a property read on an object literal. It finds the
  object's own properties and, failing that, the ones every object inherits from
  \<^verbatim>\<open>Object.prototype\<close> (functions, or the prototype object itself), which are truthy.
\<close>

datatype property = OwnProperty string | InheritedProperty string | NoProperty

definition object_prototype_names :: "string list" where
  "object_prototype_names =
     [''constructor'', ''__defineGetter__'', ''__defineSetter__'', ''hasOwnProperty'',
      ''__lookupGetter__'', ''__lookupSetter__'', ''isPrototypeOf'', ''propertyIsEnumerable'',
      ''toString'', ''valueOf'', ''__proto__'', ''toLocaleString'']"

definition property_of :: "(string \<times> string) list \<Rightarrow> string \<Rightarrow> property" where
  "property_of obj name =
     (case map_of obj name of
        Some v \<Rightarrow> OwnProperty v
      | None \<Rightarrow> if name \<in> set object_prototype_names then InheritedProperty name else NoProperty)"

fun property_truthy :: "property \<Rightarrow> bool" where
  "property_truthy (OwnProperty v) = (v \<noteq> [])"
| "property_truthy (InheritedProperty name) = True"
| "property_truthy NoProperty = False"

subsection \<open>The upstream call\<close>

text \<open>
  \<^verbatim>\<open>axios.post\<close> resolves with the upstream payload or rejects with an error object. The
  handler looks at two fields of that object: \<^verbatim>\<open>response\<close> (set when the upstream
  answered with a status outside 2xx) and \<^verbatim>\<open>request\<close> (set when the request was sent).
  An error thrown before anything was sent has neither.
\<close>

record upstream_response =
  up_status :: nat
  up_data :: js_value

record thrown_error =
  response :: "upstream_response option"
  request :: bool

datatype axios_result = Fulfilled js_value | Rejected thrown_error

type_synonym headers = "(string \<times> string) list"

type_synonym upstream = "property \<Rightarrow> js_value \<Rightarrow> headers \<Rightarrow> axios_result"

subsection \<open>POST /api/generate\<close>

record http_request =
  req_ip :: string
  query_endpoint :: "string option"
  req_body :: js_value

definition missing_parameters :: gateway_response where
  "missing_parameters =
     \<lparr>status = 400,
      body = JObj [(''error'', JStr ''Missing parameters''),
                   (''message'', JStr ''Model and prompt are required'')]\<rparr>"

definition invalid_endpoint :: "string \<Rightarrow> gateway_response" where
  "invalid_endpoint endpointKey =
     \<lparr>status = 400,
      body = JObj [(''error'', JStr ''Invalid endpoint''),
                   (''message'', JStr (''Endpoint '' @ [CHR 0x27] @ endpointKey @ [CHR 0x27]
                                        @ '' is not available''))]\<rparr>"

text \<open>The \<^verbatim>\<open>catch\<close> block of the handler: which response an error becomes.\<close>

definition error_response :: "thrown_error \<Rightarrow> gateway_response" where
  "error_response error =
     (case response error of
        Some r \<Rightarrow>
          \<lparr>status = up_status r,
           body = JObj [(''error'', JStr ''API Error''),
                        (''message'', js_or (js_get (up_data r) ''error'')
                                            (JStr ''The API returned an error'')),
                        (''status'', JNum (real (up_status r)))]\<rparr>
      | None \<Rightarrow>
          if request error
          then \<lparr>status = 504,
                body = JObj [(''error'', JStr ''Gateway Timeout''),
                             (''message'', JStr ''The API server is not responding'')]\<rparr>
          else \<lparr>status = 500,
                body = JObj [(''error'', JStr ''Internal Server Error''),
                             (''message'', JStr ''An error occurred while processing your request'')]\<rparr>)"

definition request_headers :: "gateway_env \<Rightarrow> headers" where
  "request_headers env =
     (''Content-Type'', ''application/json'')
       # (case OLLAMA_API_KEY env of
            None \<Rightarrow> []
          | Some k \<Rightarrow> if k = [] then [] else [(''Authorization'', ''Bearer '' @ k)])"

text \<open>\<^verbatim>\<open>req.query.endpoint || DEFAULT_ENDPOINT\<close>: an absent and an empty key give the default.\<close>

definition endpointKey_of :: "gateway_env \<Rightarrow> http_request \<Rightarrow> string" where
  "endpointKey_of env req =
     (case query_endpoint req of
        None \<Rightarrow> DEFAULT_ENDPOINT env
      | Some k \<Rightarrow> if k = [] then DEFAULT_ENDPOINT env else k)"

text \<open>
  The route handler. \<^verbatim>\<open>req.body\<close> is what \<^verbatim>\<open>express.json()\<close> parsed, an object.
  The result is the response and the list of calls made to the upstream: empty when the
  request was answered without forwarding, and never longer than one.
\<close>

definition generate_handler ::
  "gateway_env \<Rightarrow> upstream \<Rightarrow> http_request
     \<Rightarrow> gateway_response \<times> (property \<times> js_value \<times> headers) list" where
  "generate_handler env upstream req =
     (let model = js_get (req_body req) ''model'';
          prompt = js_get (req_body req) ''prompt''
      in if \<not> truthy model \<or> \<not> truthy prompt then (missing_parameters, [])
         else
           let endpointKey = endpointKey_of env req
           in if \<not> property_truthy (property_of (API_ENDPOINTS env) endpointKey)
              then (invalid_endpoint endpointKey, [])
              else
                let apiEndpoint = property_of (API_ENDPOINTS env) endpointKey;
                    axiosConfig = request_headers env
                in (case upstream apiEndpoint (req_body req) axiosConfig of
                      Fulfilled data \<Rightarrow> \<lparr>status = 200, body = data\<rparr>
                    | Rejected error \<Rightarrow> error_response error,
                    [(apiEndpoint, req_body req, axiosConfig)]))"

text \<open>
  The application: the rate limiting middleware is registered before the route, so it
  runs first, and the route runs only when the middleware called \<^verbatim>\<open>next()\<close>.
\<close>

definition post_generate ::
  "rate_limit \<Rightarrow> gateway_env \<Rightarrow> upstream \<Rightarrow> tracking \<Rightarrow> http_request \<Rightarrow> int
     \<Rightarrow> gateway_response \<times> tracking \<times> (property \<times> js_value \<times> headers) list" where
  "post_generate rl env upstream tr req now =
     (case rateLimiter rl tr (req_ip req) now of
        (Some rejected, tr') \<Rightarrow> (rejected, tr', [])
      | (None, tr') \<Rightarrow>
          (fst (generate_handler env upstream req), tr', snd (generate_handler env upstream req)))"

text \<open>A run of the application on a sequence of POST /api/generate requests.\<close>

fun run_posts ::
  "rate_limit \<Rightarrow> gateway_env \<Rightarrow> upstream \<Rightarrow> tracking \<Rightarrow> (http_request \<times> int) list
     \<Rightarrow> gateway_response list" where
  "run_posts rl env upstream tr [] = []"
| "run_posts rl env upstream tr ((req, now) # rest) =
     fst (post_generate rl env upstream tr req now)
       # run_posts rl env upstream (fst (snd (post_generate rl env upstream tr req now))) rest"

section \<open>The browser client (api-connection-utils.js)\<close>

subsection \<open>Configuration\<close>

record api_settings =
  timeout :: nat
  retryCount :: nat
  retryDelay :: nat
  checkInterval :: nat

text \<open>
  \<open>endpoints\<close> lists the properties of the \<^verbatim>\<open>endpoints\<close> object in insertion order, the
  order in which \<^verbatim>\<open>Object.values\<close> enumerates them.
\<close>

record api_config =
  endpoints :: "(string \<times> string) list"
  settings :: api_settings
  models :: "(string \<times> string) list"

definition ApiConfig :: api_config where
  "ApiConfig =
     \<lparr>endpoints = [(''local'', ''http://192.168.1.50:11434/api/generate''),
                   (''production'', ''https://ollama.mhrpci.site/api/generate'')],
      settings = \<lparr>timeout = 8000, retryCount = 2, retryDelay = 1000, checkInterval = 30000\<rparr>,
      models = [(''phi:latest'', ''Phi''),
                (''deepseek-coder:6.7b-instruct'', ''DeepSeekCoder''),
                (''mistral:latest'', ''Mistral'')]\<rparr>"

subsection \<open>The page: session storage, status elements, network log\<close>

text \<open>
  What the script reads and writes. \<open>apiEndpoint\<close> is the session storage item;
  \<open>statusText\<close> and \<open>statusIndicator\<close> hold the text and the class name of the two status
  elements, \<open>None\<close> when the document has no such element; \<open>authOverlay\<close> holds the
  overlay's \<^verbatim>\<open>style.display\<close>. \<open>fetched\<close> lists the calls made to \<^verbatim>\<open>fetch\<close>, oldest
  first, \<open>toasts\<close> the calls made to \<^verbatim>\<open>showToast\<close>, and \<open>detached\<close> counts the calls of
  \<open>tryNextEndpoint\<close> that were started without being awaited and are suspended at their
  first probe.
\<close>

record page =
  apiEndpoint :: "string option"
  statusText :: "string option"
  statusIndicator :: "string option"
  authOverlay :: "string option"
  toasts :: "(string \<times> string \<times> string) list"
  fetched :: "(string \<times> js_value) list"
  detached :: nat

record browser =
  hostname :: string
  showToast_defined :: bool

text \<open>\<^verbatim>\<open>String.prototype.includes\<close>.\<close>

fun str_includes :: "string \<Rightarrow> string \<Rightarrow> bool" where
  "str_includes [] t = (t = [])"
| "str_includes (c # cs) t = (take (length t) (c # cs) = t \<or> str_includes cs t)"

subsection \<open>The network\<close>

text \<open>
  A call to \<^verbatim>\<open>fetch\<close> either rejects (the abort of the timeout, a network failure) or
  delivers a response with a status and a body; \<^verbatim>\<open>response.json()\<close> gives the parsed
  body or rejects. What the network does is a parameter: it may depend on the address,
  on the payload, and on how many calls were made before.
\<close>

record platform_error =
  err_name :: string
  err_message :: string

record http_response =
  resp_status :: nat
  resp_json :: "platform_error + js_value"

datatype fetch_result = Threw platform_error | Response http_response

type_synonym network = "nat \<Rightarrow> string \<Rightarrow> js_value \<Rightarrow> fetch_result"

definition response_ok :: "http_response \<Rightarrow> bool" where
  "response_ok r = (200 \<le> resp_status r \<and> resp_status r \<le> 299)"

definition fetch :: "network \<Rightarrow> string \<Rightarrow> js_value \<Rightarrow> page \<Rightarrow> fetch_result \<times> page" where
  "fetch net url payload s =
     (net (length (fetched s)) url payload, s\<lparr>fetched := fetched s @ [(url, payload)]\<rparr>)"

text \<open>The payload of the liveness probe.\<close>

definition probe_body :: js_value where
  "probe_body = JObj [(''model'', JStr ''phi:latest''), (''prompt'', JStr ''test''),
                      (''stream'', JBool False)]"

subsection \<open>Endpoint selection\<close>

text \<open>
  \<^verbatim>\<open>ApiConfig.endpoints.local\<close>: a property that is missing reads as \<^verbatim>\<open>undefined\<close>, which
  session storage keeps as the string \<open>undefined\<close>.
\<close>

definition endpoint_named :: "api_config \<Rightarrow> string \<Rightarrow> string" where
  "endpoint_named cfg role =
     (case map_of (endpoints cfg) role of Some url \<Rightarrow> url | None \<Rightarrow> ''undefined'')"

text \<open>
  \<open>getApiEndpoint\<close>, in a session whose storage can be read and written. A browser that
  denies storage makes the access itself throw; the probe below, whose contract is
  about what reaches its caller, takes that error as a parameter.
\<close>

definition getApiEndpoint :: "api_config \<Rightarrow> browser \<Rightarrow> page \<Rightarrow> string \<times> page" where
  "getApiEndpoint cfg br s =
     (let isLocalEnvironment = (str_includes (hostname br) ''localhost'' \<or>
                                str_includes (hostname br) ''127.0.0.1'' \<or>
                                str_includes (hostname br) ''192.168.'');
          endpoint = (if isLocalEnvironment then endpoint_named cfg ''local''
                      else endpoint_named cfg ''production'')
      in case apiEndpoint s of
           None \<Rightarrow> (endpoint, s\<lparr>apiEndpoint := Some endpoint\<rparr>)
         | Some cached \<Rightarrow>
             if cached = [] then (endpoint, s\<lparr>apiEndpoint := Some endpoint\<rparr>)
             else (cached, s))"

definition getFallbackEndpoints :: "api_config \<Rightarrow> browser \<Rightarrow> page \<Rightarrow> string list \<times> page" where
  "getFallbackEndpoints cfg br s =
     (let (primaryEndpoint, s') = getApiEndpoint cfg br s
      in (filter (\<lambda>endpoint. endpoint \<noteq> primaryEndpoint) (map snd (endpoints cfg)), s'))"

subsection \<open>Status display and notifications\<close>

definition updateConnectionStatus :: "string \<Rightarrow> string \<Rightarrow> page \<Rightarrow> page" where
  "updateConnectionStatus st txt s =
     (if statusText s \<noteq> None \<and> statusIndicator s \<noteq> None
      then s\<lparr>statusText := Some txt,
             statusIndicator := Some (''w-2 h-2 rounded-full mr-2 '' @
               (if st = ''online'' then ''bg-green-400''
                else if st = ''warning'' then ''bg-yellow-400'' else ''bg-red-400''))\<rparr>
      else s)"

definition isAuthenticationComplete :: "page \<Rightarrow> bool" where
  "isAuthenticationComplete s =
     (case authOverlay s of None \<Rightarrow> True | Some display \<Rightarrow> display = ''none'')"

text \<open>
  \<^verbatim>\<open>showToast\<close> belongs to the page, not to this script, which calls it only when it is
  defined. It is taken to record the notification and return.
\<close>

definition showToast :: "string \<times> string \<times> string \<Rightarrow> page \<Rightarrow> page" where
  "showToast t s = s\<lparr>toasts := toasts s @ [t]\<rparr>"

subsection \<open>Failover\<close>

text \<open>
  The loop of \<open>tryNextEndpoint\<close> over the fallbacks: \<open>Some\<close> endpoint when a probe was
  answered with an OK status (the loop returns from inside), \<open>None\<close> when the loop ran
  to its end. A probe that rejects is caught and the loop goes on.
\<close>

fun tryFallbacks :: "browser \<Rightarrow> network \<Rightarrow> string list \<Rightarrow> page \<Rightarrow> string option \<times> page" where
  "tryFallbacks br net [] s = (None, s)"
| "tryFallbacks br net (endpoint # rest) s =
     (case fetch net endpoint probe_body s of
        (Response r, s1) \<Rightarrow>
          if response_ok r
          then (Some endpoint,
                (if showToast_defined br
                 then showToast (''success'', ''Switched to alternate API server'',
                                 ''Connection established'')
                 else id) (s1\<lparr>apiEndpoint := Some endpoint\<rparr>))
          else tryFallbacks br net rest s1
      | (Threw error, s1) \<Rightarrow> tryFallbacks br net rest s1)"

definition tryNextEndpoint :: "api_config \<Rightarrow> browser \<Rightarrow> network \<Rightarrow> page \<Rightarrow> string \<times> page" where
  "tryNextEndpoint cfg br net s =
     (let (fallbacks, s0) = getFallbackEndpoints cfg br s
      in case tryFallbacks br net fallbacks s0 of
           (Some endpoint, s1) \<Rightarrow> (endpoint, s1)
         | (None, s1) \<Rightarrow> getApiEndpoint cfg br s1)"

subsection \<open>The liveness probe\<close>

text \<open>
  The \<^verbatim>\<open>try\<close> block of \<open>checkApiStatus\<close>: \<open>Inr\<close> when it returned, \<open>Inl\<close> with the error
  and the page as it was when \<^verbatim>\<open>fetch\<close> rejected.
\<close>

definition checkApiStatus_try ::
  "browser \<Rightarrow> network \<Rightarrow> string \<Rightarrow> page \<Rightarrow> (platform_error \<times> page) + (bool \<times> page)" where
  "checkApiStatus_try br net endpoint s =
     (case fetch net endpoint probe_body (updateConnectionStatus ''warning'' ''Checking API...'' s) of
        (Threw error, s1) \<Rightarrow> Inl (error, s1)
      | (Response r, s1) \<Rightarrow>
          if response_ok r
          then Inr (True, updateConnectionStatus ''online'' ''AI Online'' s1)
          else Inr (False,
                    (if showToast_defined br \<and> isAuthenticationComplete s1
                     then showToast (''warning'', ''API Limited'',
                                     ''The AI service is experiencing limitations'')
                     else id) (updateConnectionStatus ''warning'' ''API Limited'' s1)))"

text \<open>
  A call of \<open>tryNextEndpoint\<close> that is not awaited runs up to its first \<^verbatim>\<open>await\<close>: it
  computes the fallbacks and issues the probe of the first one. With no fallback it has
  no \<^verbatim>\<open>await\<close> to stop at and runs to its end, reading the cached endpoint once more.
\<close>

definition tryNextEndpoint_started :: "api_config \<Rightarrow> browser \<Rightarrow> page \<Rightarrow> page" where
  "tryNextEndpoint_started cfg br s =
     (case getFallbackEndpoints cfg br s of
        ([], s0) \<Rightarrow> snd (getApiEndpoint cfg br s0)
      | (endpoint # rest, s0) \<Rightarrow>
          s0\<lparr>fetched := fetched s0 @ [(endpoint, probe_body)], detached := detached s0 + 1\<rparr>)"

text \<open>
  The \<^verbatim>\<open>catch\<close> block. Its last statement starts \<open>tryNextEndpoint\<close> without awaiting it:
  the probe returns at once, and the failover goes on by itself afterwards.
\<close>

definition checkApiStatus_catch ::
  "api_config \<Rightarrow> browser \<Rightarrow> platform_error \<Rightarrow> page \<Rightarrow> bool \<times> page" where
  "checkApiStatus_catch cfg br error s =
     (let s1 = (if err_name error = ''AbortError''
                then updateConnectionStatus ''offline'' ''Connection Timeout'' s
                else if err_message error \<noteq> [] \<and> str_includes (err_message error) ''NetworkError''
                then updateConnectionStatus ''offline'' ''Network Error'' s
                else updateConnectionStatus ''offline'' ''AI Offline'' s);
          s2 = (if showToast_defined br \<and> isAuthenticationComplete s1
                then showToast (''error'', ''API Connection Failed'',
                                ''Could not connect to AI service'') s1
                else s1)
      in (False, tryNextEndpoint_started cfg br s2))"

text \<open>
  The whole function: \<open>Inl\<close> is an error that escapes to the caller. The call of
  \<open>getApiEndpoint\<close> stands before the \<^verbatim>\<open>try\<close> block, so an error thrown by its access to
  session storage is not caught. \<open>storage_error\<close> is that error, \<open>None\<close> in a session whose
  storage is accessible.
\<close>

definition checkApiStatus ::
  "api_config \<Rightarrow> browser \<Rightarrow> platform_error option \<Rightarrow> network \<Rightarrow> page
     \<Rightarrow> platform_error + (bool \<times> page)" where
  "checkApiStatus cfg br storage_error net s =
     (case storage_error of
        Some error \<Rightarrow> Inl error
      | None \<Rightarrow>
          (let (endpoint, s0) = getApiEndpoint cfg br s
           in case checkApiStatus_try br net endpoint s0 of
                Inr result \<Rightarrow> Inr result
              | Inl (error, s1) \<Rightarrow> Inr (checkApiStatus_catch cfg br error s1)))"

subsection \<open>The generation call\<close>

text \<open>What the \<^verbatim>\<open>catch\<close> block of \<open>callOllamaApi\<close> can receive.\<close>

datatype call_error =
    Platform platform_error
  | HttpError nat
  | DataError js_value

text \<open>The request payload; \<open>opts\<close> are the properties of the \<^verbatim>\<open>options\<close> argument.\<close>

definition requestBody :: "js_value \<Rightarrow> js_value \<Rightarrow> (string \<times> js_value) list \<Rightarrow> js_value" where
  "requestBody model prompt opts =
     JObj [(''model'', model),
           (''prompt'', prompt),
           (''stream'', js_or (js_get (JObj opts) ''stream'') (JBool False)),
           (''options'',
              JObj [(''temperature'', js_or (js_get (JObj opts) ''temperature'') (JNum 0.7)),
                    (''top_p'', js_or (js_get (JObj opts) ''top_p'') (JNum 0.9)),
                    (''max_tokens'', js_or (js_get (JObj opts) ''max_tokens'') (JNum 5000))])]"

text \<open>
  What one pass through the \<^verbatim>\<open>try\<close> block makes of the network's answer: the parsed
  payload, or the error that is thrown. Reading \<^verbatim>\<open>data.error\<close> throws when the payload
  is \<^verbatim>\<open>null\<close>.
\<close>

definition attempt_outcome :: "fetch_result \<Rightarrow> call_error + js_value" where
  "attempt_outcome result =
     (case result of
        Threw error \<Rightarrow> Inl (Platform error)
      | Response r \<Rightarrow>
          if \<not> response_ok r then Inl (HttpError (resp_status r))
          else (case resp_json r of
                  Inl error \<Rightarrow> Inl (Platform error)
                | Inr data \<Rightarrow>
                    if data = JNull \<or> data = JUndefined
                    then Inl (Platform \<lparr>err_name = ''TypeError'',
                                         err_message = ''Cannot read properties of null''\<rparr>)
                    else if truthy (js_get data ''error'')
                    then Inl (DataError (js_get data ''error''))
                    else Inr data))"

definition attempt :: "network \<Rightarrow> string \<Rightarrow> js_value \<Rightarrow> page \<Rightarrow> (call_error + js_value) \<times> page" where
  "attempt net endpoint payload s =
     (case fetch net endpoint payload s of (result, s1) \<Rightarrow> (attempt_outcome result, s1))"

definition maxAttempts :: "api_config \<Rightarrow> nat" where
  "maxAttempts cfg = retryCount (settings cfg) * 2"

text \<open>
  The first part of the \<^verbatim>\<open>catch\<close> block, after the counter was incremented: switch
  endpoints every \<open>retryCount\<close> failures, otherwise announce the retry. The remainder of
  a division by zero is \<^verbatim>\<open>NaN\<close> in JavaScript, which is not zero.
\<close>

definition after_failure ::
  "api_config \<Rightarrow> browser \<Rightarrow> network \<Rightarrow> string \<Rightarrow> nat \<Rightarrow> page \<Rightarrow> string \<times> page" where
  "after_failure cfg br net endpoint attempts s =
     (if retryCount (settings cfg) \<noteq> 0 \<and> attempts mod retryCount (settings cfg) = 0
      then (case tryNextEndpoint cfg br net s of
              (endpoint', s1) \<Rightarrow>
                (endpoint', updateConnectionStatus ''warning'' ''Switching endpoints...'' s1))
      else if attempts < maxAttempts cfg
      then (endpoint, updateConnectionStatus ''warning'' ''Retrying connection...'' s)
      else (endpoint, s))"

text \<open>
  The \<^verbatim>\<open>while\<close> loop. It ends with the payload, with the error rethrown once the budget
  is used up, or by falling out of the loop, in which case the function returns
  \<^verbatim>\<open>undefined\<close>.
\<close>

function callLoop ::
  "api_config \<Rightarrow> browser \<Rightarrow> network \<Rightarrow> js_value \<Rightarrow> string \<Rightarrow> nat \<Rightarrow> page
     \<Rightarrow> (call_error + js_value) \<times> page" where
  "callLoop cfg br net payload endpoint attempts s =
     (if attempts < maxAttempts cfg
      then (case attempt net endpoint payload s of
              (Inr data, s1) \<Rightarrow> (Inr data, updateConnectionStatus ''online'' ''AI Online'' s1)
            | (Inl error, s1) \<Rightarrow>
                if attempts + 1 \<ge> maxAttempts cfg
                then (Inl error,
                      updateConnectionStatus ''offline'' ''Connection Failed''
                        (snd (after_failure cfg br net endpoint (attempts + 1) s1)))
                else callLoop cfg br net payload
                       (fst (after_failure cfg br net endpoint (attempts + 1) s1))
                       (attempts + 1)
                       (snd (after_failure cfg br net endpoint (attempts + 1) s1)))
      else (Inr JUndefined, s))"
  by pat_completeness auto
termination
  by (relation "measure (\<lambda>(cfg, br, net, payload, endpoint, attempts, s). maxAttempts cfg - attempts)")
     auto

declare callLoop.simps [simp del]

definition callOllamaApi ::
  "api_config \<Rightarrow> browser \<Rightarrow> network \<Rightarrow> js_value \<Rightarrow> js_value \<Rightarrow> (string \<times> js_value) list \<Rightarrow> page
     \<Rightarrow> (call_error + js_value) \<times> page" where
  "callOllamaApi cfg br net model prompt opts s =
     (case getApiEndpoint cfg br s of
        (endpoint, s0) \<Rightarrow> callLoop cfg br net (requestBody model prompt opts) endpoint 0 s0)"

text \<open>The generation attempts among the calls made to the network.\<close>

definition attempts_in :: "js_value \<Rightarrow> (string \<times> js_value) list \<Rightarrow> (string \<times> js_value) list" where
  "attempts_in payload calls = filter (\<lambda>c. snd c = payload) calls"

definition has_status_elements :: "page \<Rightarrow> bool" where
  "has_status_elements s = (statusText s \<noteq> None \<and> statusIndicator s \<noteq> None)"

definition probe_ok :: "fetch_result \<Rightarrow> bool" where
  "probe_ok result = (case result of Response r \<Rightarrow> response_ok r | Threw error \<Rightarrow> False)"

subsection \<open>Sample inputs\<close>

text \<open>
  A page with the local endpoint cached, the same page without its status elements and
  with the text element only, the error of a denied storage, a browser on localhost, a
  network that is down,
  one that times out, one where only the production endpoint answers, and the shipped
  configuration with a third endpoint.
\<close>

definition sample_page :: page where
  "sample_page =
     \<lparr>apiEndpoint = Some ''http://192.168.1.50:11434/api/generate'',
      statusText = Some ''Checking API...'',
      statusIndicator = Some ''w-2 h-2 rounded-full mr-2 bg-yellow-400'',
      authOverlay = Some ''none'',
      toasts = [],
      fetched = [],
      detached = 0\<rparr>"

definition page_without_status :: page where
  "page_without_status = sample_page\<lparr>statusText := None, statusIndicator := None\<rparr>"

definition page_without_indicator :: page where
  "page_without_indicator = sample_page\<lparr>statusText := Some ''AI Online'', statusIndicator := None\<rparr>"

definition storage_denied :: platform_error where
  "storage_denied = \<lparr>err_name = ''SecurityError'', err_message = ''The operation is insecure.''\<rparr>"

definition sample_browser :: browser where
  "sample_browser = \<lparr>hostname = ''localhost'', showToast_defined = True\<rparr>"

definition network_down :: network where
  "network_down i url payload =
     Threw \<lparr>err_name = ''TypeError'', err_message = ''Failed to fetch''\<rparr>"

definition network_timeout :: network where
  "network_timeout i url payload =
     Threw \<lparr>err_name = ''AbortError'', err_message = ''The operation was aborted.''\<rparr>"

definition only_production_up :: network where
  "only_production_up i url payload =
     (if url = ''https://ollama.mhrpci.site/api/generate''
      then Response \<lparr>resp_status = 200, resp_json = Inr (JObj [(''response'', JStr ''hello'')])\<rparr>
      else Threw \<lparr>err_name = ''TypeError'', err_message = ''Failed to fetch''\<rparr>)"


section \<open>Properties of the rate limiter\<close>

text \<open>The middleware in one equation: the decision and the Map it leaves.\<close>

lemma rateLimiter_eq:
  "rateLimiter rl tr ip now =
     (if length (in_window rl now (stored tr ip)) < maxRequests rl
      then (None, tr(ip \<mapsto> in_window rl now (stored tr ip) @ [now]))
      else (Some too_many_requests, tr(ip \<mapsto> stored tr ip)))"
  by (auto simp: rateLimiter_def stored_def in_window_def Let_def fun_eq_iff split: option.splits)

lemma within_quota_empty: "within_quota rl Map.empty"
  by (simp add: within_quota_def stored_def)

lemma within_quota_step:
  assumes "within_quota rl tr"
  shows "within_quota rl (snd (rateLimiter rl tr ip now))"
  using assms by (auto simp: within_quota_def rateLimiter_eq stored_def)

lemma within_quota_run:
  "within_quota rl tr \<Longrightarrow> within_quota rl (tracking_after rl tr reqs)"
  by (induction reqs arbitrary: tr) (auto simp: within_quota_step)

lemma filter_same_length: "length (filter P xs) = length xs \<Longrightarrow> filter P xs = xs"
  by (metis filter_True length_filter_less not_less_iff_gr_or_eq)

text \<open>
  A rejection needs \<open>maxRequests\<close> timestamps inside the window; with at most that many
  stored, none of them can be stale.
\<close>

lemma full_window_nothing_stale:
  assumes "length (stored tr ip) \<le> maxRequests rl"
    and "\<not> length (in_window rl now (stored tr ip)) < maxRequests rl"
  shows "in_window rl now (stored tr ip) = stored tr ip"
proof -
  have "length (in_window rl now (stored tr ip)) \<le> length (stored tr ip)"
    by (simp add: in_window_def)
  with assms have "length (in_window rl now (stored tr ip)) = length (stored tr ip)"
    by linarith
  then show ?thesis
    unfolding in_window_def by (rule filter_same_length)
qed

text \<open>
  Claim C2. For a fixed client the middleware admits a request exactly when fewer than
  \<open>maxRequests\<close> of the stored timestamps are strictly newer than \<open>now - windowMs\<close>. On
  admission the purged list with \<open>now\<close> appended is stored; on rejection (429) nothing is
  appended. With the shipped limits (60000 ms, 20 requests): twenty requests at time 0 are
  admitted, the twenty-first at time 0 is rejected, a request at time 61000 is admitted.
\<close>

theorem rate_limiter_admission:
  "(fst (rateLimiter rl tr ip now) = None) =
      (length (in_window rl now (stored tr ip)) < maxRequests rl)
   \<and> rateLimiter rl tr ip now =
      (if length (in_window rl now (stored tr ip)) < maxRequests rl
       then (None, tr(ip \<mapsto> in_window rl now (stored tr ip) @ [now]))
       else (Some too_many_requests, tr(ip \<mapsto> stored tr ip)))
   \<and> admissions RATE_LIMIT Map.empty (replicate 20 (ip, 0) @ [(ip, 0), (ip, 61000)])
       = replicate 20 True @ [False, True]"
  by (simp add: rateLimiter_eq RATE_LIMIT_def stored_def in_window_def eval_nat_numeral)

text \<open>
  Claim C6. In a run of the gateway (the Map starts empty and only the middleware writes
  it), after every admission check the timestamps stored for the checked client are the
  ones of before that lie inside the window, followed by \<open>now\<close> when the request was
  admitted; all of them are strictly newer than \<open>now - windowMs\<close>. This holds on the
  rejecting path too: it stores nothing back, and there is nothing stale to drop.
\<close>

theorem stored_timestamps_within_window:
  assumes "0 < windowMs rl" and "tr = tracking_after rl Map.empty reqs"
  shows "stored (snd (rateLimiter rl tr ip now)) ip =
           in_window rl now (stored tr ip)
             @ (if fst (rateLimiter rl tr ip now) = None then [now] else [])
       \<and> (\<forall>t \<in> set (stored (snd (rateLimiter rl tr ip now)) ip). now - windowMs rl < t)"
proof -
  have q: "length (stored tr ip) \<le> maxRequests rl"
    using within_quota_run [OF within_quota_empty, of rl reqs] assms(2)
    by (simp add: within_quota_def)
  show ?thesis
  proof (cases "length (in_window rl now (stored tr ip)) < maxRequests rl")
    case True
    then show ?thesis using assms(1)
      by (auto simp: rateLimiter_eq stored_def in_window_def)
  next
    case False
    from full_window_nothing_stale [OF q False]
    have same: "in_window rl now (stored tr ip) = stored tr ip" .
    have "\<forall>t \<in> set (in_window rl now (stored tr ip)). now - windowMs rl < t"
      by (simp add: in_window_def)
    with same False show ?thesis
      by (simp add: rateLimiter_eq stored_def)
  qed
qed

text \<open>
  The same at a concrete run: twenty requests at time 0 fill the window, a check at time
  59999 is rejected and leaves the twenty timestamps, all inside the window.
\<close>

theorem stored_timestamps_within_window_witness:
  "0 < windowMs RATE_LIMIT
   \<and> fst (rateLimiter RATE_LIMIT
            (tracking_after RATE_LIMIT Map.empty (replicate 20 (''10.0.0.7'', 0)))
            ''10.0.0.7'' 59999) = Some too_many_requests
   \<and> stored (snd (rateLimiter RATE_LIMIT
            (tracking_after RATE_LIMIT Map.empty (replicate 20 (''10.0.0.7'', 0)))
            ''10.0.0.7'' 59999)) ''10.0.0.7'' = replicate 20 0"
proof -
  have w: "0 < windowMs RATE_LIMIT"
    by (simp add: RATE_LIMIT_def)
  have r: "fst (rateLimiter RATE_LIMIT
            (tracking_after RATE_LIMIT Map.empty (replicate 20 (''10.0.0.7'', 0)))
            ''10.0.0.7'' 59999) = Some too_many_requests"
    by (simp add: rateLimiter_eq RATE_LIMIT_def stored_def in_window_def eval_nat_numeral)
  have b: "stored (tracking_after RATE_LIMIT Map.empty (replicate 20 (''10.0.0.7'', 0)))
             ''10.0.0.7'' = replicate 20 0"
    by (simp add: rateLimiter_eq RATE_LIMIT_def stored_def in_window_def eval_nat_numeral)
  from stored_timestamps_within_window
         [OF w refl, of "replicate 20 (''10.0.0.7'', 0)" "''10.0.0.7''" 59999]
  show ?thesis using w r b
    by (simp add: in_window_def RATE_LIMIT_def eval_nat_numeral)
qed


section \<open>Properties of the gateway's route handler\<close>

text \<open>The three ways through the handler.\<close>

lemma missing_parameters_not_forwarded:
  assumes "\<not> truthy (js_get (req_body req) ''model'') \<or> \<not> truthy (js_get (req_body req) ''prompt'')"
  shows "generate_handler env upstream req = (missing_parameters, [])"
  using assms by (auto simp: generate_handler_def Let_def)

lemma unknown_endpoint_not_forwarded:
  assumes "truthy (js_get (req_body req) ''model'')" and "truthy (js_get (req_body req) ''prompt'')"
    and "\<not> property_truthy (property_of (API_ENDPOINTS env) (endpointKey_of env req))"
  shows "generate_handler env upstream req = (invalid_endpoint (endpointKey_of env req), [])"
  using assms by (auto simp: generate_handler_def Let_def)


text \<open>The handler has no retry: it calls the upstream at most once for a request.\<close>

lemma forwarded_at_most_once:
  "length (snd (generate_handler env upstream req)) \<le> 1"
  by (simp add: generate_handler_def Let_def)



text \<open>
  Claim C5. A request with a falsy model or prompt is answered 400 Missing parameters and
  a key without any property is answered 400 Invalid endpoint, both without a call to the
  upstream (the two lemmas above). The registry test is a truthiness test on a property
  read, though, and it lets through a key that is not registered but names a property
  every object inherits. At the key \<open>constructor\<close>, whatever the environment and the
  upstream: the key is not in the registry, the handler calls the upstream once with the
  inherited value as its target, and its answer is not the 400 Invalid endpoint response.
\<close>

theorem inherited_key_is_forwarded:
  "generate_handler env upstream
      \<lparr>req_ip = a, query_endpoint = Some ''constructor'',
       req_body = JObj [(''model'', JStr ''phi:latest''), (''prompt'', JStr ''hi'')]\<rparr>
    = (case upstream (InheritedProperty ''constructor'')
              (JObj [(''model'', JStr ''phi:latest''), (''prompt'', JStr ''hi'')]) (request_headers env) of
         Fulfilled data \<Rightarrow> \<lparr>status = 200, body = data\<rparr>
       | Rejected error \<Rightarrow> error_response error,
       [(InheritedProperty ''constructor'',
         JObj [(''model'', JStr ''phi:latest''), (''prompt'', JStr ''hi'')], request_headers env)])
  \<and> map_of (API_ENDPOINTS env) ''constructor'' = None
  \<and> fst (generate_handler env upstream
      \<lparr>req_ip = a, query_endpoint = Some ''constructor'',
       req_body = JObj [(''model'', JStr ''phi:latest''), (''prompt'', JStr ''hi'')]\<rparr>)
      \<noteq> invalid_endpoint ''constructor''"
  by (auto simp: generate_handler_def Let_def property_of_def API_ENDPOINTS_def endpointKey_of_def
      object_prototype_names_def invalid_endpoint_def error_response_def
      split: axios_result.splits option.splits)

text \<open>
  The same with nothing left open: the default environment and an upstream that cannot be
  reached. The request with the key \<open>constructor\<close> is forwarded and answered 504.
\<close>

theorem inherited_key_is_forwarded_witness:
  "map_of (API_ENDPOINTS \<lparr>OLLAMA_API_LOCAL = None, OLLAMA_API_PRODUCTION = None, NODE_ENV = None, OLLAMA_API_KEY = None\<rparr>) ''constructor'' = None
   \<and> generate_handler \<lparr>OLLAMA_API_LOCAL = None, OLLAMA_API_PRODUCTION = None, NODE_ENV = None, OLLAMA_API_KEY = None\<rparr>
        (\<lambda>target payload hs. Rejected \<lparr>response = None, request = True\<rparr>)
        \<lparr>req_ip = ''10.0.0.7'', query_endpoint = Some ''constructor'',
         req_body = JObj [(''model'', JStr ''phi:latest''), (''prompt'', JStr ''hi'')]\<rparr>
      = (\<lparr>status = 504,
          body = JObj [(''error'', JStr ''Gateway Timeout''),
                       (''message'', JStr ''The API server is not responding'')]\<rparr>,
         [(InheritedProperty ''constructor'',
           JObj [(''model'', JStr ''phi:latest''), (''prompt'', JStr ''hi'')],
           [(''Content-Type'', ''application/json'')])])"
  using inherited_key_is_forwarded
    [of "\<lparr>OLLAMA_API_LOCAL = None, OLLAMA_API_PRODUCTION = None, NODE_ENV = None, OLLAMA_API_KEY = None\<rparr>"
        "\<lambda>(target::property) (payload::js_value) (hs::headers).
            Rejected \<lparr>response = None, request = True\<rparr>"
        "''10.0.0.7''"]
  by (simp add: error_response_def request_headers_def)

text \<open>
  Claim C10. The rate limiting middleware runs before the route handler: a request that
  the middleware admits and the handler then rejects (falsy model or prompt, or a key
  without a property) is answered 400 without a call to the upstream, and its timestamp
  has been appended to the client's window. So twenty requests without a model, each
  answered 400, use up the quota: a well-formed request that follows in the same window
  is answered 429.
\<close>

theorem invalid_requests_consume_quota:
  assumes "fst (rateLimiter rl tr (req_ip req) now) = None"
    and "\<not> truthy (js_get (req_body req) ''model'') \<or> \<not> truthy (js_get (req_body req) ''prompt'')
         \<or> \<not> property_truthy (property_of (API_ENDPOINTS env) (endpointKey_of env req))"
  shows "status (fst (post_generate rl env upstream tr req now)) = 400
       \<and> snd (snd (post_generate rl env upstream tr req now)) = []
       \<and> stored (fst (snd (post_generate rl env upstream tr req now))) (req_ip req)
           = in_window rl now (stored tr (req_ip req)) @ [now]
       \<and> map status (run_posts RATE_LIMIT env upstream Map.empty
            (replicate 20 (\<lparr>req_ip = a, query_endpoint = None, req_body = JObj [(''prompt'', JStr ''hi'')]\<rparr>, 0)
             @ [(\<lparr>req_ip = a, query_endpoint = None,
                  req_body = JObj [(''model'', JStr ''phi:latest''), (''prompt'', JStr ''hi'')]\<rparr>, 0)]))
           = replicate 20 400 @ [429]"
proof -
  have h: "generate_handler env upstream req = (missing_parameters, [])
         \<or> generate_handler env upstream req = (invalid_endpoint (endpointKey_of env req), [])"
    using assms(2) missing_parameters_not_forwarded unknown_endpoint_not_forwarded by blast
  have adm: "length (in_window rl now (stored tr (req_ip req))) < maxRequests rl"
    using assms(1) by (simp add: rateLimiter_eq split: if_splits)
  have a: "status (fst (post_generate rl env upstream tr req now)) = 400
       \<and> snd (snd (post_generate rl env upstream tr req now)) = []
       \<and> stored (fst (snd (post_generate rl env upstream tr req now))) (req_ip req)
           = in_window rl now (stored tr (req_ip req)) @ [now]"
    using h adm
    by (auto simp: post_generate_def rateLimiter_eq stored_def missing_parameters_def invalid_endpoint_def)
  have b: "map status (run_posts RATE_LIMIT env upstream Map.empty
            (replicate 20 (\<lparr>req_ip = a, query_endpoint = None, req_body = JObj [(''prompt'', JStr ''hi'')]\<rparr>, 0)
             @ [(\<lparr>req_ip = a, query_endpoint = None,
                  req_body = JObj [(''model'', JStr ''phi:latest''), (''prompt'', JStr ''hi'')]\<rparr>, 0)]))
           = replicate 20 400 @ [429]"
    by (simp add: post_generate_def rateLimiter_eq RATE_LIMIT_def stored_def in_window_def
        eval_nat_numeral generate_handler_def missing_parameters_def too_many_requests_def)
  from a b show ?thesis by blast
qed

theorem invalid_requests_consume_quota_witness:
  "fst (rateLimiter RATE_LIMIT Map.empty ''10.0.0.7'' 5) = None
   \<and> \<not> truthy (js_get (JObj [(''model'', JStr []), (''prompt'', JStr ''hi'')]) ''model'')
   \<and> status (fst (post_generate RATE_LIMIT
         \<lparr>OLLAMA_API_LOCAL = None, OLLAMA_API_PRODUCTION = None, NODE_ENV = None, OLLAMA_API_KEY = None\<rparr>
         (\<lambda>target payload hs. Rejected \<lparr>response = None, request = True\<rparr>) Map.empty
         \<lparr>req_ip = ''10.0.0.7'', query_endpoint = None,
          req_body = JObj [(''model'', JStr []), (''prompt'', JStr ''hi'')]\<rparr> 5)) = 400
   \<and> stored (fst (snd (post_generate RATE_LIMIT
         \<lparr>OLLAMA_API_LOCAL = None, OLLAMA_API_PRODUCTION = None, NODE_ENV = None, OLLAMA_API_KEY = None\<rparr>
         (\<lambda>target payload hs. Rejected \<lparr>response = None, request = True\<rparr>) Map.empty
         \<lparr>req_ip = ''10.0.0.7'', query_endpoint = None,
          req_body = JObj [(''model'', JStr []), (''prompt'', JStr ''hi'')]\<rparr> 5))) ''10.0.0.7'' = [5]"
proof -
  let ?env = "\<lparr>OLLAMA_API_LOCAL = None, OLLAMA_API_PRODUCTION = None, NODE_ENV = None, OLLAMA_API_KEY = None\<rparr>"
  let ?up = "\<lambda>(target::property) (payload::js_value) (hs::headers).
               Rejected \<lparr>response = None, request = True\<rparr>"
  let ?req = "\<lparr>req_ip = ''10.0.0.7'', query_endpoint = None,
          req_body = JObj [(''model'', JStr []), (''prompt'', JStr ''hi'')]\<rparr>"
  have a: "fst (rateLimiter RATE_LIMIT Map.empty (req_ip ?req) 5) = None"
    by (simp add: rateLimiter_eq RATE_LIMIT_def stored_def in_window_def)
  have m: "\<not> truthy (js_get (req_body ?req) ''model'')"
    by simp
  then have i: "\<not> truthy (js_get (req_body ?req) ''model'') \<or> \<not> truthy (js_get (req_body ?req) ''prompt'')
         \<or> \<not> property_truthy (property_of (API_ENDPOINTS ?env) (endpointKey_of ?env ?req))"
    by blast
  from invalid_requests_consume_quota [OF a i, of ?up]
  show ?thesis using a m by (simp add: stored_def in_window_def)
qed

section \<open>Properties of the failover procedure\<close>

text \<open>
  The loop over the fallbacks, in two lemmas: when no probe is answered with an OK status
  every fallback was probed and nothing else changed; when the probe of the fallback at
  position \<open>i\<close> is the first one answered OK, the loop stops there and stores it.
\<close>

lemma tryFallbacks_none:
  "(\<forall>i<length fbs. \<not> probe_ok (net (length (fetched s) + i) (fbs ! i) probe_body))
   \<Longrightarrow> tryFallbacks br net fbs s =
         (None, s\<lparr>fetched := fetched s @ map (\<lambda>e. (e, probe_body)) fbs\<rparr>)"
proof (induction fbs arbitrary: s)
  case Nil
  then show ?case by simp
next
  case (Cons e rest)
  let ?s1 = "s\<lparr>fetched := fetched s @ [(e, probe_body)]\<rparr>"
  from Cons.prems have first: "\<not> probe_ok (net (length (fetched s)) e probe_body)"
    by force
  have later: "\<forall>i<length rest. \<not> probe_ok (net (length (fetched ?s1) + i) (rest ! i) probe_body)"
  proof (intro allI impI)
    fix i assume "i < length rest"
    with Cons.prems have "\<not> probe_ok (net (length (fetched s) + Suc i) ((e # rest) ! Suc i) probe_body)"
      by (metis Suc_less_eq length_Cons)
    then show "\<not> probe_ok (net (length (fetched ?s1) + i) (rest ! i) probe_body)"
      by simp
  qed
  have step: "tryFallbacks br net (e # rest) s = tryFallbacks br net rest ?s1"
    using first by (auto simp: fetch_def probe_ok_def split: fetch_result.splits)
  from Cons.IH [of ?s1] later
  have "tryFallbacks br net rest ?s1 =
          (None, ?s1\<lparr>fetched := fetched ?s1 @ map (\<lambda>e. (e, probe_body)) rest\<rparr>)"
    by blast
  with step show ?case by simp
qed

lemma tryFallbacks_first:
  "i < length fbs \<Longrightarrow> probe_ok (net (length (fetched s) + i) (fbs ! i) probe_body)
   \<Longrightarrow> (\<forall>j<i. \<not> probe_ok (net (length (fetched s) + j) (fbs ! j) probe_body))
   \<Longrightarrow> tryFallbacks br net fbs s =
         (Some (fbs ! i),
          (if showToast_defined br
           then showToast (''success'', ''Switched to alternate API server'', ''Connection established'')
           else id)
            (s\<lparr>fetched := fetched s @ map (\<lambda>e. (e, probe_body)) (take (Suc i) fbs),
               apiEndpoint := Some (fbs ! i)\<rparr>))"
proof (induction fbs arbitrary: s i)
  case Nil
  then show ?case by simp
next
  case (Cons e rest)
  let ?s1 = "s\<lparr>fetched := fetched s @ [(e, probe_body)]\<rparr>"
  show ?case
  proof (cases i)
    case 0
    with Cons.prems have "probe_ok (net (length (fetched s)) e probe_body)" by simp
    then show ?thesis using 0
      by (auto simp: fetch_def probe_ok_def split: fetch_result.splits)
  next
    case (Suc k)
    from Cons.prems Suc have first: "\<not> probe_ok (net (length (fetched s)) e probe_body)"
      by force
    have step: "tryFallbacks br net (e # rest) s = tryFallbacks br net rest ?s1"
      using first by (auto simp: fetch_def probe_ok_def split: fetch_result.splits)
    have k: "k < length rest" using Cons.prems Suc by simp
    have ok: "probe_ok (net (length (fetched ?s1) + k) (rest ! k) probe_body)"
      using Cons.prems(2) Suc by simp
    have before: "\<forall>j<k. \<not> probe_ok (net (length (fetched ?s1) + j) (rest ! j) probe_body)"
    proof (intro allI impI)
      fix j assume "j < k"
      then have "Suc j < i" using Suc by simp
      with Cons.prems(3) have "\<not> probe_ok (net (length (fetched s) + Suc j) ((e # rest) ! Suc j) probe_body)"
        by blast
      then show "\<not> probe_ok (net (length (fetched ?s1) + j) (rest ! j) probe_body)" by simp
    qed
    from Cons.IH [of k ?s1] k ok before
    have "tryFallbacks br net rest ?s1 =
         (Some (rest ! k),
          (if showToast_defined br
           then showToast (''success'', ''Switched to alternate API server'', ''Connection established'')
           else id)
            (?s1\<lparr>fetched := fetched ?s1 @ map (\<lambda>e. (e, probe_body)) (take (Suc k) rest),
                 apiEndpoint := Some (rest ! k)\<rparr>))"
      by blast
    with step Suc show ?thesis by simp
  qed
qed

text \<open>
  Claim C7. With an endpoint \<open>c\<close> in the session cache, \<open>tryNextEndpoint\<close> probes the
  registry entries other than \<open>c\<close> in registry order. If no probe is answered with an OK
  status, all of them were probed, the cache is unchanged and \<open>c\<close> is returned. If the
  probe at position \<open>i\<close> is the first one answered OK, the fallbacks up to that position
  were probed, and that fallback is in the cache and is returned.
\<close>

theorem tryNextEndpoint_first_responsive:
  assumes "apiEndpoint s = Some c" and "c \<noteq> []"
    and "fbs = filter (\<lambda>endpoint. endpoint \<noteq> c) (map snd (endpoints cfg))"
  shows "((\<forall>i<length fbs. \<not> probe_ok (net (length (fetched s) + i) (fbs ! i) probe_body)) \<longrightarrow>
            tryNextEndpoint cfg br net s =
              (c, s\<lparr>fetched := fetched s @ map (\<lambda>e. (e, probe_body)) fbs\<rparr>))
       \<and> (\<forall>i<length fbs.
             probe_ok (net (length (fetched s) + i) (fbs ! i) probe_body)
             \<and> (\<forall>j<i. \<not> probe_ok (net (length (fetched s) + j) (fbs ! j) probe_body)) \<longrightarrow>
             fst (tryNextEndpoint cfg br net s) = fbs ! i
             \<and> apiEndpoint (snd (tryNextEndpoint cfg br net s)) = Some (fbs ! i)
             \<and> fetched (snd (tryNextEndpoint cfg br net s)) =
                 fetched s @ map (\<lambda>e. (e, probe_body)) (take (Suc i) fbs))"
proof -
  have g: "getFallbackEndpoints cfg br s = (fbs, s)"
    using assms by (simp add: getFallbackEndpoints_def getApiEndpoint_def)
  show ?thesis
  proof (intro conjI impI allI)
    assume "\<forall>i<length fbs. \<not> probe_ok (net (length (fetched s) + i) (fbs ! i) probe_body)"
    then have "tryFallbacks br net fbs s =
         (None, s\<lparr>fetched := fetched s @ map (\<lambda>e. (e, probe_body)) fbs\<rparr>)"
      by (rule tryFallbacks_none [where net = net and s = s and fbs = fbs])
    then show "tryNextEndpoint cfg br net s = (c, s\<lparr>fetched := fetched s @ map (\<lambda>e. (e, probe_body)) fbs\<rparr>)"
      using assms(1,2) by (simp add: tryNextEndpoint_def g getApiEndpoint_def)
  next
    fix i
    assume i: "i < length fbs"
      and "probe_ok (net (length (fetched s) + i) (fbs ! i) probe_body)
             \<and> (\<forall>j<i. \<not> probe_ok (net (length (fetched s) + j) (fbs ! j) probe_body))"
    then have t: "tryFallbacks br net fbs s =
         (Some (fbs ! i),
          (if showToast_defined br
           then showToast (''success'', ''Switched to alternate API server'', ''Connection established'')
           else id)
            (s\<lparr>fetched := fetched s @ map (\<lambda>e. (e, probe_body)) (take (Suc i) fbs),
               apiEndpoint := Some (fbs ! i)\<rparr>))"
      using tryFallbacks_first by blast
    show "fst (tryNextEndpoint cfg br net s) = fbs ! i"
      by (simp add: tryNextEndpoint_def g t)
    show "apiEndpoint (snd (tryNextEndpoint cfg br net s)) = Some (fbs ! i)"
      by (simp add: tryNextEndpoint_def g t showToast_def)
    show "fetched (snd (tryNextEndpoint cfg br net s)) =
                 fetched s @ map (\<lambda>e. (e, probe_body)) (take (Suc i) fbs)"
      by (simp add: tryNextEndpoint_def g t showToast_def)
  qed
qed

text \<open>
  On the shipped registry with the local endpoint cached: a production endpoint that
  answers is selected, and with the network down the local endpoint stays.
\<close>

theorem tryNextEndpoint_first_responsive_witness:
  "apiEndpoint sample_page = Some ''http://192.168.1.50:11434/api/generate''
   \<and> filter (\<lambda>endpoint. endpoint \<noteq> ''http://192.168.1.50:11434/api/generate'')
        (map snd (endpoints ApiConfig)) = [''https://ollama.mhrpci.site/api/generate'']
   \<and> probe_ok (only_production_up 0 ''https://ollama.mhrpci.site/api/generate'' probe_body)
   \<and> fst (tryNextEndpoint ApiConfig sample_browser only_production_up sample_page)
       = ''https://ollama.mhrpci.site/api/generate''
   \<and> apiEndpoint (snd (tryNextEndpoint ApiConfig sample_browser only_production_up sample_page))
       = Some ''https://ollama.mhrpci.site/api/generate''
   \<and> \<not> probe_ok (network_down 0 ''https://ollama.mhrpci.site/api/generate'' probe_body)
   \<and> fst (tryNextEndpoint ApiConfig sample_browser network_down sample_page)
       = ''http://192.168.1.50:11434/api/generate''
   \<and> apiEndpoint (snd (tryNextEndpoint ApiConfig sample_browser network_down sample_page))
       = apiEndpoint sample_page"
proof -
  let ?local = "''http://192.168.1.50:11434/api/generate''"
  let ?prod = "''https://ollama.mhrpci.site/api/generate''"
  have c: "apiEndpoint sample_page = Some ?local" "?local \<noteq> []"
    by (simp_all add: sample_page_def)
  have fb: "[?prod] = filter (\<lambda>endpoint. endpoint \<noteq> ?local) (map snd (endpoints ApiConfig))"
    by (simp add: ApiConfig_def)
  have n: "fetched sample_page = []" by (simp add: sample_page_def)
  have up: "probe_ok (only_production_up 0 ?prod probe_body)"
    by (simp add: only_production_up_def probe_ok_def response_ok_def)
  have down: "\<not> probe_ok (network_down 0 ?prod probe_body)"
    by (simp add: network_down_def probe_ok_def)
  from tryNextEndpoint_first_responsive [where net = only_production_up and s = sample_page and cfg = ApiConfig
      and br = sample_browser, OF c fb]
  have "fst (tryNextEndpoint ApiConfig sample_browser only_production_up sample_page) = ?prod
      \<and> apiEndpoint (snd (tryNextEndpoint ApiConfig sample_browser only_production_up sample_page))
          = Some ?prod"
    using up by (simp add: n)
  moreover
  from tryNextEndpoint_first_responsive [where net = network_down and s = sample_page and cfg = ApiConfig
      and br = sample_browser, OF c fb]
  have "fst (tryNextEndpoint ApiConfig sample_browser network_down sample_page) = ?local
      \<and> apiEndpoint (snd (tryNextEndpoint ApiConfig sample_browser network_down sample_page))
          = apiEndpoint sample_page"
    using down by (simp add: n)
  ultimately show ?thesis using c(1) fb [symmetric] up down by simp
qed

section \<open>What the operations leave unchanged\<close>

lemma getApiEndpoint_keeps:
  "fetched (snd (getApiEndpoint cfg br s)) = fetched s"
  "statusText (snd (getApiEndpoint cfg br s)) = statusText s"
  "statusIndicator (snd (getApiEndpoint cfg br s)) = statusIndicator s"
  by (simp_all add: getApiEndpoint_def Let_def split: option.splits)

lemma updateConnectionStatus_keeps:
  "fetched (updateConnectionStatus st txt s) = fetched s"
  "apiEndpoint (updateConnectionStatus st txt s) = apiEndpoint s"
  "has_status_elements (updateConnectionStatus st txt s) = has_status_elements s"
  by (simp_all add: updateConnectionStatus_def has_status_elements_def)

lemma updateConnectionStatus_shown:
  assumes "has_status_elements s"
  shows "statusText (updateConnectionStatus st txt s) = Some txt"
    and "statusIndicator (updateConnectionStatus st txt s) =
           Some (''w-2 h-2 rounded-full mr-2 '' @
             (if st = ''online'' then ''bg-green-400''
              else if st = ''warning'' then ''bg-yellow-400'' else ''bg-red-400''))"
  using assms by (simp_all add: updateConnectionStatus_def has_status_elements_def)

lemma tryFallbacks_status:
  "statusText (snd (tryFallbacks br net fbs s)) = statusText s
   \<and> statusIndicator (snd (tryFallbacks br net fbs s)) = statusIndicator s"
  by (induction fbs arbitrary: s)
     (auto simp: fetch_def showToast_def split: fetch_result.splits)

lemma tryFallbacks_fetched:
  "\<exists>ps. fetched (snd (tryFallbacks br net fbs s)) = fetched s @ ps
        \<and> (\<forall>c\<in>set ps. snd c = probe_body)"
proof (induction fbs arbitrary: s)
  case Nil
  then show ?case by simp
next
  case (Cons e rest)
  let ?s1 = "s\<lparr>fetched := fetched s @ [(e, probe_body)]\<rparr>"
  from Cons.IH [of ?s1] obtain ps where
    ps: "fetched (snd (tryFallbacks br net rest ?s1)) = fetched ?s1 @ ps"
        "\<forall>c\<in>set ps. snd c = probe_body"
    by blast
  show ?case
  proof (cases "probe_ok (net (length (fetched s)) e probe_body)")
    case True
    then have "fetched (snd (tryFallbacks br net (e # rest) s)) = fetched s @ [(e, probe_body)]"
      by (auto simp: fetch_def probe_ok_def showToast_def split: fetch_result.splits)
    then show ?thesis by simp
  next
    case False
    then have "tryFallbacks br net (e # rest) s = tryFallbacks br net rest ?s1"
      by (auto simp: fetch_def probe_ok_def split: fetch_result.splits)
    with ps have "fetched (snd (tryFallbacks br net (e # rest) s)) = fetched s @ ((e, probe_body) # ps)"
      by simp
    moreover have "\<forall>c\<in>set ((e, probe_body) # ps). snd c = probe_body"
      using ps(2) by simp
    ultimately show ?thesis by blast
  qed
qed

lemma tryNextEndpoint_status:
  "statusText (snd (tryNextEndpoint cfg br net s)) = statusText s
   \<and> statusIndicator (snd (tryNextEndpoint cfg br net s)) = statusIndicator s"
proof -
  obtain fbs s0 where g: "getFallbackEndpoints cfg br s = (fbs, s0)"
    by (cases "getFallbackEndpoints cfg br s")
  then have s0: "s0 = snd (getApiEndpoint cfg br s)"
    by (auto simp: getFallbackEndpoints_def split: prod.splits)
  obtain r s1 where t: "tryFallbacks br net fbs s0 = (r, s1)"
    by (cases "tryFallbacks br net fbs s0")
  from tryFallbacks_status [of br net fbs s0] t
  have "statusText s1 = statusText s \<and> statusIndicator s1 = statusIndicator s"
    by (simp add: s0 getApiEndpoint_keeps)
  then show ?thesis
    by (cases r) (simp_all add: tryNextEndpoint_def g t getApiEndpoint_keeps)
qed

lemma tryNextEndpoint_fetched:
  "\<exists>ps. fetched (snd (tryNextEndpoint cfg br net s)) = fetched s @ ps
        \<and> (\<forall>c\<in>set ps. snd c = probe_body)"
proof -
  obtain fbs s0 where g: "getFallbackEndpoints cfg br s = (fbs, s0)"
    by (cases "getFallbackEndpoints cfg br s")
  then have s0: "s0 = snd (getApiEndpoint cfg br s)"
    by (auto simp: getFallbackEndpoints_def split: prod.splits)
  obtain r s1 where t: "tryFallbacks br net fbs s0 = (r, s1)"
    by (cases "tryFallbacks br net fbs s0")
  from tryFallbacks_fetched [of br net fbs s0] t obtain ps where
    "fetched s1 = fetched s @ ps" "\<forall>c\<in>set ps. snd c = probe_body"
    by (auto simp: s0 getApiEndpoint_keeps)
  moreover have "fetched (snd (tryNextEndpoint cfg br net s)) = fetched s1"
    by (cases r) (simp_all add: tryNextEndpoint_def g t getApiEndpoint_keeps)
  ultimately show ?thesis by auto
qed

lemma fetched_update_elements:
  "has_status_elements (s\<lparr>fetched := calls\<rparr>) = has_status_elements s"
  by (simp add: has_status_elements_def)



lemma after_failure_fetched:
  "\<exists>ps. fetched (snd (after_failure cfg br net endpoint n s)) = fetched s @ ps
        \<and> (\<forall>c\<in>set ps. snd c = probe_body)"
  using tryNextEndpoint_fetched [of cfg br net s]
  by (auto simp: after_failure_def updateConnectionStatus_keeps split: prod.splits)

lemma attempt_eq:
  "attempt net endpoint payload s =
     (attempt_outcome (net (length (fetched s)) endpoint payload),
      s\<lparr>fetched := fetched s @ [(endpoint, payload)]\<rparr>)"
  by (simp add: attempt_def fetch_def)

lemma callLoop_success:
  assumes "attempts < maxAttempts cfg"
    and "attempt_outcome (net (length (fetched s)) endpoint payload) = Inr data"
  shows "callLoop cfg br net payload endpoint attempts s =
           (Inr data, updateConnectionStatus ''online'' ''AI Online''
                        (s\<lparr>fetched := fetched s @ [(endpoint, payload)]\<rparr>))"
  using assms by (subst callLoop.simps) (simp add: attempt_eq)

lemma callLoop_retry:
  assumes "Suc attempts < maxAttempts cfg"
    and "attempt_outcome (net (length (fetched s)) endpoint payload) = Inl e"
  shows "callLoop cfg br net payload endpoint attempts s =
           callLoop cfg br net payload
             (fst (after_failure cfg br net endpoint (Suc attempts)
                     (s\<lparr>fetched := fetched s @ [(endpoint, payload)]\<rparr>)))
             (Suc attempts)
             (snd (after_failure cfg br net endpoint (Suc attempts)
                     (s\<lparr>fetched := fetched s @ [(endpoint, payload)]\<rparr>)))"
  using assms by (subst callLoop.simps) (simp add: attempt_eq)

lemma callLoop_exhausted:
  assumes "attempts < maxAttempts cfg" and "maxAttempts cfg \<le> Suc attempts"
    and "attempt_outcome (net (length (fetched s)) endpoint payload) = Inl e"
  shows "callLoop cfg br net payload endpoint attempts s =
           (Inl e, updateConnectionStatus ''offline'' ''Connection Failed''
                     (snd (after_failure cfg br net endpoint (Suc attempts)
                             (s\<lparr>fetched := fetched s @ [(endpoint, payload)]\<rparr>))))"
  using assms by (subst callLoop.simps) (simp add: attempt_eq)


lemma requestBody_not_probe: "requestBody model prompt opts \<noteq> probe_body"
  by (simp add: requestBody_def probe_body_def)

lemma callLoop_first_fetch:
  assumes "attempts < maxAttempts cfg"
  shows "\<exists>later. fetched (snd (callLoop cfg br net payload endpoint attempts s)) =
           fetched s @ (endpoint, payload) # later"
  using assms
proof (induction "maxAttempts cfg - attempts" arbitrary: attempts endpoint s)
  case 0
  then show ?case by simp
next
  case (Suc n)
  let ?s1 = "s\<lparr>fetched := fetched s @ [(endpoint, payload)]\<rparr>"
  let ?af = "after_failure cfg br net endpoint (Suc attempts) ?s1"
  from after_failure_fetched [of cfg br net endpoint "Suc attempts" ?s1] obtain ps where
    ps: "fetched (snd ?af) = fetched s @ (endpoint, payload) # ps"
    by auto
  show ?case
  proof (cases "attempt_outcome (net (length (fetched s)) endpoint payload)")
    case (Inr data)
    from callLoop_success [where net = net and s = s and endpoint = endpoint and payload = payload,
        OF Suc.prems Inr]
    show ?thesis by (simp add: updateConnectionStatus_keeps)
  next
    case (Inl e)
    show ?thesis
    proof (cases "maxAttempts cfg \<le> Suc attempts")
      case True
      from callLoop_exhausted [where net = net and s = s and endpoint = endpoint and payload = payload,
          OF Suc.prems True Inl]
      show ?thesis by (simp add: updateConnectionStatus_keeps ps)
    next
      case False
      then have more: "Suc attempts < maxAttempts cfg" by simp
      have n: "n = maxAttempts cfg - Suc attempts" using Suc.hyps(2) by simp
      from Suc.hyps(1) [OF n more, of "fst ?af" "snd ?af"] obtain later where
        "fetched (snd (callLoop cfg br net payload (fst ?af) (Suc attempts) (snd ?af))) =
           fetched (snd ?af) @ (fst ?af, payload) # later"
        by blast
      then have "fetched (snd (callLoop cfg br net payload (fst ?af) (Suc attempts) (snd ?af))) =
           fetched s @ (endpoint, payload) # (ps @ (fst ?af, payload) # later)"
        by (simp add: ps)
      moreover have "callLoop cfg br net payload endpoint attempts s =
           callLoop cfg br net payload (fst ?af) (Suc attempts) (snd ?af)"
        by (rule callLoop_retry [where net = net and s = s and endpoint = endpoint and payload = payload,
          OF more Inl])
      ultimately show ?thesis by auto
    qed
  qed
qed

section \<open>Properties of the generation call and of the probe\<close>

text \<open>
  Claim C9. The payload takes \<open>stream\<close>, \<open>temperature\<close>, \<open>top_p\<close> and \<open>max_tokens\<close>
  from the options when the value given is truthy, and the defaults \<open>false\<close>, 0.7, 0.9 and
  5000 when it is falsy, absent or not: a caller who asks for temperature 0 gets 0.7.
  That payload is what the first attempt of a call sends to the selected endpoint.
\<close>

theorem falsy_options_get_defaults:
  "js_get (requestBody model prompt opts) ''stream'' =
      (if truthy (js_get (JObj opts) ''stream'') then js_get (JObj opts) ''stream'' else JBool False)
   \<and> js_get (js_get (requestBody model prompt opts) ''options'') ''temperature'' =
      (if truthy (js_get (JObj opts) ''temperature'') then js_get (JObj opts) ''temperature'' else JNum 0.7)
   \<and> js_get (js_get (requestBody model prompt opts) ''options'') ''top_p'' =
      (if truthy (js_get (JObj opts) ''top_p'') then js_get (JObj opts) ''top_p'' else JNum 0.9)
   \<and> js_get (js_get (requestBody model prompt opts) ''options'') ''max_tokens'' =
      (if truthy (js_get (JObj opts) ''max_tokens'') then js_get (JObj opts) ''max_tokens'' else JNum 5000)
   \<and> js_get (js_get (requestBody model prompt [(''temperature'', JNum 0)]) ''options'') ''temperature''
       = JNum 0.7
   \<and> (0 < retryCount (settings cfg) \<longrightarrow>
        (\<exists>later. fetched (snd (callOllamaApi cfg br net model prompt opts s)) =
           fetched s @ (fst (getApiEndpoint cfg br s), requestBody model prompt opts) # later))"
proof -
  have sent: "\<exists>later. fetched (snd (callOllamaApi cfg br net model prompt opts s)) =
           fetched s @ (fst (getApiEndpoint cfg br s), requestBody model prompt opts) # later"
    if "0 < retryCount (settings cfg)"
  proof -
    obtain endpoint s0 where g: "getApiEndpoint cfg br s = (endpoint, s0)"
      by (cases "getApiEndpoint cfg br s")
    have "fetched s0 = fetched s"
      using getApiEndpoint_keeps(1) [of cfg br s] g by simp
    moreover have "0 < maxAttempts cfg" using that by (simp add: maxAttempts_def)
    ultimately show ?thesis
      using callLoop_first_fetch [of 0 cfg br net "requestBody model prompt opts" endpoint s0]
      by (simp add: callOllamaApi_def g)
  qed
  have body: "js_get (requestBody model prompt opts) ''stream'' =
      (if truthy (js_get (JObj opts) ''stream'') then js_get (JObj opts) ''stream'' else JBool False)"
    "js_get (js_get (requestBody model prompt opts) ''options'') ''temperature'' =
      (if truthy (js_get (JObj opts) ''temperature'') then js_get (JObj opts) ''temperature'' else JNum 0.7)"
    "js_get (js_get (requestBody model prompt opts) ''options'') ''top_p'' =
      (if truthy (js_get (JObj opts) ''top_p'') then js_get (JObj opts) ''top_p'' else JNum 0.9)"
    "js_get (js_get (requestBody model prompt opts) ''options'') ''max_tokens'' =
      (if truthy (js_get (JObj opts) ''max_tokens'') then js_get (JObj opts) ''max_tokens'' else JNum 5000)"
    by (simp_all add: requestBody_def js_or_def)
  have zero: "js_get (js_get (requestBody model prompt [(''temperature'', JNum 0)]) ''options'') ''temperature''
       = JNum 0.7"
    by (simp add: requestBody_def js_or_def)
  from sent body zero show ?thesis by blast
qed

theorem falsy_options_get_defaults_witness:
  "0 < retryCount (settings ApiConfig)
   \<and> (\<exists>later. fetched (snd (callOllamaApi ApiConfig sample_browser network_down
                  (JStr ''phi:latest'') (JStr ''hi'') [(''temperature'', JNum 0)] sample_page)) =
        (''http://192.168.1.50:11434/api/generate'',
         JObj [(''model'', JStr ''phi:latest''), (''prompt'', JStr ''hi''), (''stream'', JBool False),
               (''options'', JObj [(''temperature'', JNum 0.7), (''top_p'', JNum 0.9),
                                   (''max_tokens'', JNum 5000)])]) # later)"
proof -
  have r: "0 < retryCount (settings ApiConfig)" by (simp add: ApiConfig_def)
  have g: "fst (getApiEndpoint ApiConfig sample_browser sample_page)
             = ''http://192.168.1.50:11434/api/generate''"
    by (simp add: getApiEndpoint_def sample_page_def)
  have n: "fetched sample_page = []" by (simp add: sample_page_def)
  have b: "requestBody (JStr ''phi:latest'') (JStr ''hi'') [(''temperature'', JNum 0)] =
      JObj [(''model'', JStr ''phi:latest''), (''prompt'', JStr ''hi''), (''stream'', JBool False),
               (''options'', JObj [(''temperature'', JNum 0.7), (''top_p'', JNum 0.9),
                                   (''max_tokens'', JNum 5000)])]"
    by (simp add: requestBody_def js_or_def)
  from falsy_options_get_defaults [where cfg = ApiConfig and br = sample_browser and net = network_down
      and model = "JStr ''phi:latest''" and prompt = "JStr ''hi''"
      and opts = "[(''temperature'', JNum 0)]" and s = sample_page] r
  have "\<exists>later. fetched (snd (callOllamaApi ApiConfig sample_browser network_down
                  (JStr ''phi:latest'') (JStr ''hi'') [(''temperature'', JNum 0)] sample_page)) =
           fetched sample_page @ (fst (getApiEndpoint ApiConfig sample_browser sample_page),
              requestBody (JStr ''phi:latest'') (JStr ''hi'') [(''temperature'', JNum 0)]) # later"
    by blast
  then show ?thesis using r by (simp add: g n b)
qed

lemma updateConnectionStatus_absent:
  "\<not> has_status_elements s \<Longrightarrow> updateConnectionStatus st txt s = s"
  by (auto simp: updateConnectionStatus_def has_status_elements_def)

lemma tryNextEndpoint_started_status:
  "statusText (tryNextEndpoint_started cfg br s) = statusText s
   \<and> statusIndicator (tryNextEndpoint_started cfg br s) = statusIndicator s"
  using getApiEndpoint_keeps(2,3) [of cfg br s]
        getApiEndpoint_keeps(2,3) [of cfg br "snd (getApiEndpoint cfg br s)"]
  by (auto simp: tryNextEndpoint_started_def getFallbackEndpoints_def split: prod.splits list.splits)

text \<open>
  Claim C8, as amended. In a session whose storage is accessible \<open>checkApiStatus\<close>
  always returns to its caller, never with an error. When the probe is aborted by the
  timeout it returns false, and on a page that has both status elements the status then
  shows offline, Connection Timeout, whatever it showed before; no run of the failover
  it started changes the status. When the probe is answered with an OK status it
  returns true, and on a page that has both status elements the status shows online,
  AI Online.
\<close>

theorem checkApiStatus_probe_outcomes:
  "(\<exists>b s'. checkApiStatus cfg br None net s = Inr (b, s'))
   \<and> (\<forall>e. net (length (fetched s)) (fst (getApiEndpoint cfg br s)) probe_body = Threw e
            \<and> err_name e = ''AbortError'' \<longrightarrow>
         (\<exists>s'. checkApiStatus cfg br None net s = Inr (False, s')
              \<and> (has_status_elements s \<longrightarrow>
                    statusText s' = Some ''Connection Timeout''
                    \<and> statusIndicator s' = Some ''w-2 h-2 rounded-full mr-2 bg-red-400'')
              \<and> (\<forall>net'. statusIndicator (snd (tryNextEndpoint cfg br net' s')) = statusIndicator s'
                       \<and> statusText (snd (tryNextEndpoint cfg br net' s')) = statusText s')))
   \<and> (\<forall>r. net (length (fetched s)) (fst (getApiEndpoint cfg br s)) probe_body = Response r
            \<and> response_ok r \<longrightarrow>
         (\<exists>s'. checkApiStatus cfg br None net s = Inr (True, s')
              \<and> (has_status_elements s \<longrightarrow>
                    statusText s' = Some ''AI Online''
                    \<and> statusIndicator s' = Some ''w-2 h-2 rounded-full mr-2 bg-green-400'')))"
proof -
  obtain endpoint s0 where g: "getApiEndpoint cfg br s = (endpoint, s0)"
    by (cases "getApiEndpoint cfg br s")
  have s0: "fetched s0 = fetched s" "has_status_elements s0 = has_status_elements s"
    using getApiEndpoint_keeps [of cfg br s] g by (simp_all add: has_status_elements_def)
  let ?s1 = "updateConnectionStatus ''warning'' ''Checking API...'' s0"
  have s1: "fetched ?s1 = fetched s" "has_status_elements ?s1 = has_status_elements s"
    using s0 by (simp_all add: updateConnectionStatus_keeps)
  let ?s2 = "?s1\<lparr>fetched := fetched ?s1 @ [(endpoint, probe_body)]\<rparr>"
  have s2: "has_status_elements ?s2 = has_status_elements s"
    using s1 by (simp add: fetched_update_elements)
  have total: "\<exists>b s'. checkApiStatus cfg br None net s = Inr (b, s')"
    by (auto simp: checkApiStatus_def g checkApiStatus_try_def checkApiStatus_catch_def fetch_def Let_def
        split: fetch_result.splits sum.splits prod.splits)
  have timeout: "\<exists>s'. checkApiStatus cfg br None net s = Inr (False, s')
              \<and> (has_status_elements s \<longrightarrow>
                    statusText s' = Some ''Connection Timeout''
                    \<and> statusIndicator s' = Some ''w-2 h-2 rounded-full mr-2 bg-red-400'')
              \<and> (\<forall>net'. statusIndicator (snd (tryNextEndpoint cfg br net' s')) = statusIndicator s'
                       \<and> statusText (snd (tryNextEndpoint cfg br net' s')) = statusText s')"
    if "net (length (fetched s)) (fst (getApiEndpoint cfg br s)) probe_body = Threw e"
      and "err_name e = ''AbortError''" for e
  proof -
    from that(1) have t: "checkApiStatus_try br net endpoint s0 = Inl (e, ?s2)"
      by (simp add: checkApiStatus_try_def fetch_def g s1)
    let ?s3 = "updateConnectionStatus ''offline'' ''Connection Timeout'' ?s2"
    have shown: "statusText ?s3 = Some ''Connection Timeout''"
                "statusIndicator ?s3 = Some ''w-2 h-2 rounded-full mr-2 bg-red-400''"
      if "has_status_elements s"
      using updateConnectionStatus_shown [of ?s2 "''offline''" "''Connection Timeout''"] that s2
      by simp_all
    obtain b s' where c: "checkApiStatus_catch cfg br e ?s2 = (b, s')"
      by (cases "checkApiStatus_catch cfg br e ?s2")
    have r: "checkApiStatus cfg br None net s = Inr (b, s')"
      by (simp add: checkApiStatus_def g t c)
    have b: "b = False"
      using c by (auto simp: checkApiStatus_catch_def Let_def)
    have s': "s' = tryNextEndpoint_started cfg br
                (if showToast_defined br \<and> isAuthenticationComplete ?s3
                 then showToast (''error'', ''API Connection Failed'',
                                 ''Could not connect to AI service'') ?s3
                 else ?s3)"
      using c that(2) by (auto simp: checkApiStatus_catch_def Let_def)
    have st: "statusText s' = statusText ?s3" "statusIndicator s' = statusIndicator ?s3"
      unfolding s' using tryNextEndpoint_started_status by (simp_all add: showToast_def)
    have "\<forall>net'. statusIndicator (snd (tryNextEndpoint cfg br net' s')) = statusIndicator s'
                         \<and> statusText (snd (tryNextEndpoint cfg br net' s')) = statusText s'"
      by (simp add: tryNextEndpoint_status)
    with r b st shown show ?thesis by simp
  qed
  have online: "\<exists>s'. checkApiStatus cfg br None net s = Inr (True, s')
              \<and> (has_status_elements s \<longrightarrow>
                    statusText s' = Some ''AI Online''
                    \<and> statusIndicator s' = Some ''w-2 h-2 rounded-full mr-2 bg-green-400'')"
    if "net (length (fetched s)) (fst (getApiEndpoint cfg br s)) probe_body = Response r"
      and "response_ok r" for r
  proof -
    let ?s3 = "updateConnectionStatus ''online'' ''AI Online'' ?s2"
    from that have t: "checkApiStatus_try br net endpoint s0 = Inr (True, ?s3)"
      by (simp add: checkApiStatus_try_def fetch_def g s1)
    have "statusText ?s3 = Some ''AI Online''"
         "statusIndicator ?s3 = Some ''w-2 h-2 rounded-full mr-2 bg-green-400''"
      if "has_status_elements s"
      using updateConnectionStatus_shown [of ?s2 "''online''" "''AI Online''"] that s2 by simp_all
    moreover have "checkApiStatus cfg br None net s = Inr (True, ?s3)"
      by (simp add: checkApiStatus_def g t)
    ultimately show ?thesis by blast
  qed
  from total timeout online show ?thesis by blast
qed

text \<open>
  A probe that times out, and a probe that is answered on a page that showed offline.
\<close>

theorem checkApiStatus_probe_outcomes_witness:
  "has_status_elements sample_page
   \<and> (\<exists>s'. checkApiStatus ApiConfig sample_browser None network_timeout sample_page = Inr (False, s')
           \<and> statusText s' = Some ''Connection Timeout''
           \<and> statusIndicator s' = Some ''w-2 h-2 rounded-full mr-2 bg-red-400'')
   \<and> (\<exists>s'. checkApiStatus ApiConfig sample_browser None only_production_up
              (sample_page\<lparr>apiEndpoint := Some ''https://ollama.mhrpci.site/api/generate'',
                           statusText := Some ''Connection Timeout'',
                           statusIndicator := Some ''w-2 h-2 rounded-full mr-2 bg-red-400''\<rparr>)
             = Inr (True, s')
           \<and> statusText s' = Some ''AI Online''
           \<and> statusIndicator s' = Some ''w-2 h-2 rounded-full mr-2 bg-green-400'')"
proof -
  let ?offline = "sample_page\<lparr>apiEndpoint := Some ''https://ollama.mhrpci.site/api/generate'',
                           statusText := Some ''Connection Timeout'',
                           statusIndicator := Some ''w-2 h-2 rounded-full mr-2 bg-red-400''\<rparr>"
  have e1: "has_status_elements sample_page"
    by (simp add: has_status_elements_def sample_page_def)
  have e2: "has_status_elements ?offline"
    by (simp add: has_status_elements_def)
  have t: "network_timeout (length (fetched sample_page))
             (fst (getApiEndpoint ApiConfig sample_browser sample_page)) probe_body
           = Threw \<lparr>err_name = ''AbortError'', err_message = ''The operation was aborted.''\<rparr>"
    by (simp add: network_timeout_def)
  have u: "only_production_up (length (fetched ?offline))
             (fst (getApiEndpoint ApiConfig sample_browser ?offline)) probe_body
           = Response \<lparr>resp_status = 200, resp_json = Inr (JObj [(''response'', JStr ''hello'')])\<rparr>"
    by (simp add: only_production_up_def getApiEndpoint_def)
  have ok: "response_ok \<lparr>resp_status = 200, resp_json = Inr (JObj [(''response'', JStr ''hello'')])\<rparr>"
    by (simp add: response_ok_def)
  from checkApiStatus_probe_outcomes [where net = network_timeout and s = sample_page
      and cfg = ApiConfig and br = sample_browser] t e1
  have a: "\<exists>s'. checkApiStatus ApiConfig sample_browser None network_timeout sample_page = Inr (False, s')
           \<and> statusText s' = Some ''Connection Timeout''
           \<and> statusIndicator s' = Some ''w-2 h-2 rounded-full mr-2 bg-red-400''"
    by auto
  from checkApiStatus_probe_outcomes [where net = only_production_up and s = ?offline
      and cfg = ApiConfig and br = sample_browser] u ok e2
  have b: "\<exists>s'. checkApiStatus ApiConfig sample_browser None only_production_up ?offline = Inr (True, s')
           \<and> statusText s' = Some ''AI Online''
           \<and> statusIndicator s' = Some ''w-2 h-2 rounded-full mr-2 bg-green-400''"
    by blast
  from e1 a b show ?thesis by blast
qed

text \<open>
  The claim as stated fails in two ways. When the browser denies session storage the
  error of that access reaches the caller. And on a page with the text element but no
  indicator element, a probe that times out returns false and leaves the text that was
  there, AI Online.
\<close>

theorem checkApiStatus_throws_or_keeps_status:
  "checkApiStatus ApiConfig sample_browser (Some storage_denied) network_timeout sample_page
     = Inl storage_denied
   \<and> network_timeout 0 ''http://192.168.1.50:11434/api/generate'' probe_body
       = Threw \<lparr>err_name = ''AbortError'', err_message = ''The operation was aborted.''\<rparr>
   \<and> checkApiStatus ApiConfig sample_browser None network_timeout page_without_indicator
       = Inr (False,
              \<lparr>apiEndpoint = Some ''http://192.168.1.50:11434/api/generate'',
               statusText = Some ''AI Online'',
               statusIndicator = None,
               authOverlay = Some ''none'',
               toasts = [(''error'', ''API Connection Failed'', ''Could not connect to AI service'')],
               fetched = [(''http://192.168.1.50:11434/api/generate'', probe_body),
                          (''https://ollama.mhrpci.site/api/generate'', probe_body)],
               detached = 1\<rparr>)"
  by (simp add: checkApiStatus_def getApiEndpoint_def checkApiStatus_try_def checkApiStatus_catch_def
      fetch_def updateConnectionStatus_def tryNextEndpoint_started_def getFallbackEndpoints_def
      isAuthenticationComplete_def showToast_def network_timeout_def page_without_indicator_def
      sample_page_def sample_browser_def ApiConfig_def Let_def)





text \<open>
  The failover scenario, run from start to end: two failed attempts on the cached
  primary \<open>p\<close>, the probe of the first fallback \<open>f\<close> answered OK, the attempt on \<open>f\<close>
  answered with a payload. The status elements show online when the page has them, and
  nothing is written into the status when it has not.
\<close>

lemma failover_run:
  assumes r: "retryCount (settings cfg) = 2"
    and c: "apiEndpoint s = Some p" "p \<noteq> []"
    and fb: "filter (\<lambda>endpoint. endpoint \<noteq> p) (map snd (endpoints cfg)) = f # others"
    and a1: "isl (attempt_outcome (net (length (fetched s)) p (requestBody model prompt opts)))"
    and a2: "isl (attempt_outcome (net (length (fetched s) + 1) p (requestBody model prompt opts)))"
    and pr: "probe_ok (net (length (fetched s) + 2) f probe_body)"
    and a3: "attempt_outcome (net (length (fetched s) + 3) f (requestBody model prompt opts)) = Inr data"
  shows "fst (callOllamaApi cfg br net model prompt opts s) = Inr data
       \<and> apiEndpoint (snd (callOllamaApi cfg br net model prompt opts s)) = Some f
       \<and> fetched (snd (callOllamaApi cfg br net model prompt opts s)) =
           fetched s @ [(p, requestBody model prompt opts), (p, requestBody model prompt opts),
                        (f, probe_body), (f, requestBody model prompt opts)]
       \<and> (has_status_elements s \<longrightarrow>
            statusText (snd (callOllamaApi cfg br net model prompt opts s)) = Some ''AI Online''
            \<and> statusIndicator (snd (callOllamaApi cfg br net model prompt opts s)) =
                Some ''w-2 h-2 rounded-full mr-2 bg-green-400'')
       \<and> (\<not> has_status_elements s \<longrightarrow>
            statusText (snd (callOllamaApi cfg br net model prompt opts s)) = statusText s
            \<and> statusIndicator (snd (callOllamaApi cfg br net model prompt opts s)) = statusIndicator s)"
proof -
  define rb where "rb = requestBody model prompt opts"
  have m: "maxAttempts cfg = 4" using r by (simp add: maxAttempts_def)
  have np: "rb \<noteq> probe_body"
    unfolding rb_def by (rule requestBody_not_probe)
  have g: "getApiEndpoint cfg br s = (p, s)"
    using c by (simp add: getApiEndpoint_def)
  from a1 obtain e1 where e1: "attempt_outcome (net (length (fetched s)) p rb) = Inl e1"
    by (auto simp: isl_def rb_def)
  define s2 where
    "s2 = updateConnectionStatus ''warning'' ''Retrying connection...''
            (s\<lparr>fetched := fetched s @ [(p, rb)]\<rparr>)"
  have af1: "after_failure cfg br net p (Suc 0) (s\<lparr>fetched := fetched s @ [(p, rb)]\<rparr>) = (p, s2)"
    using r m by (simp add: after_failure_def s2_def)
  have step1: "callLoop cfg br net rb p 0 s = callLoop cfg br net rb p (Suc 0) s2"
    using callLoop_retry [where net = net and s = s and endpoint = p and payload = rb
        and attempts = 0 and cfg = cfg and br = br, OF _ e1] m af1
    by simp
  have s2: "fetched s2 = fetched s @ [(p, rb)]" "apiEndpoint s2 = Some p"
    "has_status_elements s2 = has_status_elements s"
    using c by (simp_all add: s2_def updateConnectionStatus_keeps fetched_update_elements)
  from a2 obtain e2 where e2: "attempt_outcome (net (length (fetched s2)) p rb) = Inl e2"
    by (auto simp: isl_def s2 rb_def)
  define s3 where "s3 = s2\<lparr>fetched := fetched s2 @ [(p, rb)]\<rparr>"
  have s3: "fetched s3 = fetched s @ [(p, rb), (p, rb)]" "apiEndpoint s3 = Some p"
    "has_status_elements s3 = has_status_elements s"
    using s2 by (simp_all add: s3_def fetched_update_elements)
  define s4 where
    "s4 = (if showToast_defined br
           then showToast (''success'', ''Switched to alternate API server'', ''Connection established'')
           else id)
            (s3\<lparr>fetched := fetched s3 @ map (\<lambda>e. (e, probe_body)) (take (Suc 0) (f # others)),
                apiEndpoint := Some ((f # others) ! 0)\<rparr>)"
  have gf: "getFallbackEndpoints cfg br s3 = (f # others, s3)"
    using s3(2) c(2) fb by (simp add: getFallbackEndpoints_def getApiEndpoint_def)
  have tf: "tryFallbacks br net (f # others) s3 = (Some ((f # others) ! 0), s4)"
    unfolding s4_def
    by (rule tryFallbacks_first [where net = net and s = s3 and i = 0 and fbs = "f # others"])
       (use pr s3(1) in simp_all)
  have tn: "tryNextEndpoint cfg br net s3 = (f, s4)"
    by (simp add: tryNextEndpoint_def gf tf del: tryFallbacks.simps)
  define s5 where "s5 = updateConnectionStatus ''warning'' ''Switching endpoints...'' s4"
  have af2: "after_failure cfg br net p (Suc (Suc 0)) s3 = (f, s5)"
    using r by (simp add: after_failure_def tn s5_def)
  have step2: "callLoop cfg br net rb p (Suc 0) s2 = callLoop cfg br net rb f (Suc (Suc 0)) s5"
    using callLoop_retry [where net = net and s = s2 and endpoint = p and payload = rb
        and attempts = "Suc 0" and cfg = cfg and br = br, OF _ e2] m af2
    by (simp add: s3_def)
  have s4: "fetched s4 = fetched s @ [(p, rb), (p, rb), (f, probe_body)]"
    "apiEndpoint s4 = Some f" "has_status_elements s4 = has_status_elements s"
    using s3 by (simp_all add: s4_def showToast_def has_status_elements_def)
  have s5: "fetched s5 = fetched s @ [(p, rb), (p, rb), (f, probe_body)]"
    "apiEndpoint s5 = Some f" "has_status_elements s5 = has_status_elements s"
    using s4 by (simp_all add: s5_def updateConnectionStatus_keeps)
  have e3: "attempt_outcome (net (length (fetched s5)) f rb) = Inr data"
    using a3 by (simp add: s5(1) rb_def eval_nat_numeral)
  define s6 where
    "s6 = updateConnectionStatus ''online'' ''AI Online'' (s5\<lparr>fetched := fetched s5 @ [(f, rb)]\<rparr>)"
  have step3: "callLoop cfg br net rb f (Suc (Suc 0)) s5 = (Inr data, s6)"
    unfolding s6_def
    by (rule callLoop_success [where net = net and s = s5 and endpoint = f and payload = rb, OF _ e3])
       (simp add: m)
  have all: "callOllamaApi cfg br net model prompt opts s = (Inr data, s6)"
    using step1 step2 step3 by (simp add: callOllamaApi_def g rb_def)
  have el6: "has_status_elements (s5\<lparr>fetched := fetched s5 @ [(f, rb)]\<rparr>) = has_status_elements s"
    using s5(3) by (simp only: fetched_update_elements)
  have s6: "fetched s6 = fetched s @ [(p, rb), (p, rb), (f, probe_body), (f, rb)]"
    "apiEndpoint s6 = Some f"
    using s5(1,2) by (simp_all add: s6_def updateConnectionStatus_keeps)
  have shown: "statusText s6 = Some ''AI Online''
      \<and> statusIndicator s6 = Some ''w-2 h-2 rounded-full mr-2 bg-green-400''"
    if "has_status_elements s"
    using updateConnectionStatus_shown
            [of "s5\<lparr>fetched := fetched s5 @ [(f, rb)]\<rparr>" "''online''" "''AI Online''"] el6 that
    by (simp add: s6_def)
  have kept: "statusText s6 = statusText s \<and> statusIndicator s6 = statusIndicator s"
    if "\<not> has_status_elements s"
    using that
    by (auto simp: s6_def s5_def s4_def s3_def s2_def updateConnectionStatus_def
        has_status_elements_def showToast_def)
  show ?thesis
    using s6 shown kept by (simp add: all rb_def)
qed

text \<open>
  Claim C3, as amended. With a retry count of two, a cached primary endpoint \<open>p\<close> whose
  first two attempts fail, a first fallback \<open>f\<close> whose probe is answered OK and whose
  attempt succeeds: the call returns the payload \<open>f\<close> answered with, \<open>f\<close> is in the session
  cache, the network saw two attempts on \<open>p\<close>, the probe of \<open>f\<close> and one attempt on \<open>f\<close>,
  three attempts in all. On a page that has both status elements the status ends
  online, AI Online; on a page that lacks one the status is left as it was.
\<close>

theorem failover_scenario:
  assumes r: "retryCount (settings cfg) = 2"
    and c: "apiEndpoint s = Some p" "p \<noteq> []"
    and fb: "filter (\<lambda>endpoint. endpoint \<noteq> p) (map snd (endpoints cfg)) = f # others"
    and a1: "isl (attempt_outcome (net (length (fetched s)) p (requestBody model prompt opts)))"
    and a2: "isl (attempt_outcome (net (length (fetched s) + 1) p (requestBody model prompt opts)))"
    and pr: "probe_ok (net (length (fetched s) + 2) f probe_body)"
    and a3: "attempt_outcome (net (length (fetched s) + 3) f (requestBody model prompt opts)) = Inr data"
  shows "fst (callOllamaApi cfg br net model prompt opts s) = Inr data
       \<and> apiEndpoint (snd (callOllamaApi cfg br net model prompt opts s)) = Some f
       \<and> fetched (snd (callOllamaApi cfg br net model prompt opts s)) =
           fetched s @ [(p, requestBody model prompt opts), (p, requestBody model prompt opts),
                        (f, probe_body), (f, requestBody model prompt opts)]
       \<and> length (attempts_in (requestBody model prompt opts)
            (drop (length (fetched s)) (fetched (snd (callOllamaApi cfg br net model prompt opts s))))) = 3
       \<and> (has_status_elements s \<longrightarrow>
            statusText (snd (callOllamaApi cfg br net model prompt opts s)) = Some ''AI Online''
            \<and> statusIndicator (snd (callOllamaApi cfg br net model prompt opts s)) =
                Some ''w-2 h-2 rounded-full mr-2 bg-green-400'')
       \<and> (\<not> has_status_elements s \<longrightarrow>
            statusText (snd (callOllamaApi cfg br net model prompt opts s)) = statusText s
            \<and> statusIndicator (snd (callOllamaApi cfg br net model prompt opts s)) = statusIndicator s)"
proof -
  note run = failover_run [where net = net and s = s and cfg = cfg and br = br and p = p and f = f
      and others = others and model = model and prompt = prompt and opts = opts and data = data,
      OF r c fb a1 a2 pr a3]
  have "length (attempts_in (requestBody model prompt opts)
            (drop (length (fetched s)) (fetched (snd (callOllamaApi cfg br net model prompt opts s))))) = 3"
    using run requestBody_not_probe [of model prompt opts]
    by (simp add: attempts_in_def)
  with run show ?thesis by blast
qed

text \<open>
  The shipped configuration, the local endpoint unreachable and production answering.
\<close>

theorem failover_scenario_witness:
  "retryCount (settings ApiConfig) = 2
   \<and> apiEndpoint sample_page = Some ''http://192.168.1.50:11434/api/generate''
   \<and> filter (\<lambda>endpoint. endpoint \<noteq> ''http://192.168.1.50:11434/api/generate'')
        (map snd (endpoints ApiConfig)) = [''https://ollama.mhrpci.site/api/generate'']
   \<and> has_status_elements sample_page
   \<and> isl (attempt_outcome (only_production_up 0 ''http://192.168.1.50:11434/api/generate''
        (requestBody (JStr ''phi:latest'') (JStr ''hi'') [])))
   \<and> isl (attempt_outcome (only_production_up 1 ''http://192.168.1.50:11434/api/generate''
        (requestBody (JStr ''phi:latest'') (JStr ''hi'') [])))
   \<and> probe_ok (only_production_up 2 ''https://ollama.mhrpci.site/api/generate'' probe_body)
   \<and> fst (callOllamaApi ApiConfig sample_browser only_production_up (JStr ''phi:latest'')
            (JStr ''hi'') [] sample_page) = Inr (JObj [(''response'', JStr ''hello'')])
   \<and> apiEndpoint (snd (callOllamaApi ApiConfig sample_browser only_production_up (JStr ''phi:latest'')
            (JStr ''hi'') [] sample_page)) = Some ''https://ollama.mhrpci.site/api/generate''
   \<and> length (attempts_in (requestBody (JStr ''phi:latest'') (JStr ''hi'') [])
        (fetched (snd (callOllamaApi ApiConfig sample_browser only_production_up (JStr ''phi:latest'')
            (JStr ''hi'') [] sample_page)))) = 3
   \<and> statusText (snd (callOllamaApi ApiConfig sample_browser only_production_up (JStr ''phi:latest'')
            (JStr ''hi'') [] sample_page)) = Some ''AI Online''"
proof -
  let ?rb = "requestBody (JStr ''phi:latest'') (JStr ''hi'') []"
  let ?local = "''http://192.168.1.50:11434/api/generate''"
  let ?prod = "''https://ollama.mhrpci.site/api/generate''"
  have r: "retryCount (settings ApiConfig) = 2" by (simp add: ApiConfig_def)
  have c: "apiEndpoint sample_page = Some ?local" "?local \<noteq> []"
    by (simp_all add: sample_page_def)
  have fb: "filter (\<lambda>endpoint. endpoint \<noteq> ?local) (map snd (endpoints ApiConfig)) = ?prod # []"
    by (simp add: ApiConfig_def)
  have el: "has_status_elements sample_page"
    by (simp add: has_status_elements_def sample_page_def)
  have a1: "isl (attempt_outcome (only_production_up (length (fetched sample_page)) ?local ?rb))"
    by (simp add: only_production_up_def attempt_outcome_def)
  have a2: "isl (attempt_outcome (only_production_up (length (fetched sample_page) + 1) ?local ?rb))"
    by (simp add: only_production_up_def attempt_outcome_def)
  have pr: "probe_ok (only_production_up (length (fetched sample_page) + 2) ?prod probe_body)"
    by (simp add: only_production_up_def probe_ok_def response_ok_def)
  have a3: "attempt_outcome (only_production_up (length (fetched sample_page) + 3) ?prod ?rb)
              = Inr (JObj [(''response'', JStr ''hello'')])"
    by (simp add: only_production_up_def attempt_outcome_def response_ok_def)
  have n: "fetched sample_page = []" by (simp add: sample_page_def)
  have given: "isl (attempt_outcome (only_production_up 0 ?local ?rb))"
    "isl (attempt_outcome (only_production_up 1 ?local ?rb))"
    "probe_ok (only_production_up 2 ?prod probe_body)"
    by (simp_all add: only_production_up_def attempt_outcome_def probe_ok_def response_ok_def)
  from failover_scenario [OF r c fb a1 a2 pr a3, of sample_browser]
  show ?thesis using r c(1) fb el given
    by (simp add: n attempts_in_def requestBody_not_probe requestBody_not_probe [symmetric])
qed

text \<open>
  The claim as stated, with the status ending online on every page, fails on a page
  without the status elements: the scenario runs, the call returns the payload of the
  fallback, and the status holds nothing.
\<close>

theorem failover_without_status_elements:
  "isl (attempt_outcome (only_production_up 0 ''http://192.168.1.50:11434/api/generate''
        (requestBody (JStr ''phi:latest'') (JStr ''hi'') [])))
   \<and> isl (attempt_outcome (only_production_up 1 ''http://192.168.1.50:11434/api/generate''
        (requestBody (JStr ''phi:latest'') (JStr ''hi'') [])))
   \<and> probe_ok (only_production_up 2 ''https://ollama.mhrpci.site/api/generate'' probe_body)
   \<and> fst (callOllamaApi ApiConfig sample_browser only_production_up (JStr ''phi:latest'')
            (JStr ''hi'') [] page_without_status) = Inr (JObj [(''response'', JStr ''hello'')])
   \<and> apiEndpoint (snd (callOllamaApi ApiConfig sample_browser only_production_up (JStr ''phi:latest'')
            (JStr ''hi'') [] page_without_status)) = Some ''https://ollama.mhrpci.site/api/generate''
   \<and> statusText (snd (callOllamaApi ApiConfig sample_browser only_production_up (JStr ''phi:latest'')
            (JStr ''hi'') [] page_without_status)) = None
   \<and> statusIndicator (snd (callOllamaApi ApiConfig sample_browser only_production_up
            (JStr ''phi:latest'') (JStr ''hi'') [] page_without_status)) = None"
proof -
  let ?rb = "requestBody (JStr ''phi:latest'') (JStr ''hi'') []"
  let ?local = "''http://192.168.1.50:11434/api/generate''"
  let ?prod = "''https://ollama.mhrpci.site/api/generate''"
  have r: "retryCount (settings ApiConfig) = 2" by (simp add: ApiConfig_def)
  have c: "apiEndpoint page_without_status = Some ?local" "?local \<noteq> []"
    by (simp_all add: page_without_status_def sample_page_def)
  have fb: "filter (\<lambda>endpoint. endpoint \<noteq> ?local) (map snd (endpoints ApiConfig)) = ?prod # []"
    by (simp add: ApiConfig_def)
  have n: "fetched page_without_status = []"
    by (simp add: page_without_status_def sample_page_def)
  have none: "\<not> has_status_elements page_without_status"
    "statusText page_without_status = None" "statusIndicator page_without_status = None"
    by (simp_all add: has_status_elements_def page_without_status_def)
  have a1: "isl (attempt_outcome (only_production_up (length (fetched page_without_status)) ?local ?rb))"
    by (simp add: only_production_up_def attempt_outcome_def)
  have a2: "isl (attempt_outcome (only_production_up (length (fetched page_without_status) + 1) ?local ?rb))"
    by (simp add: only_production_up_def attempt_outcome_def)
  have pr: "probe_ok (only_production_up (length (fetched page_without_status) + 2) ?prod probe_body)"
    by (simp add: only_production_up_def probe_ok_def response_ok_def)
  have a3: "attempt_outcome (only_production_up (length (fetched page_without_status) + 3) ?prod ?rb)
              = Inr (JObj [(''response'', JStr ''hello'')])"
    by (simp add: only_production_up_def attempt_outcome_def response_ok_def)
  have given: "isl (attempt_outcome (only_production_up 0 ?local ?rb))"
    "isl (attempt_outcome (only_production_up 1 ?local ?rb))"
    "probe_ok (only_production_up 2 ?prod probe_body)"
    by (simp_all add: only_production_up_def attempt_outcome_def probe_ok_def response_ok_def)
  from failover_run [where net = only_production_up and s = page_without_status and cfg = ApiConfig
      and br = sample_browser, OF r c fb a1 a2 pr a3]
  show ?thesis using given none by simp
qed

end
